theory Spec2Isabelle
  imports Complex_Main "HOL-Library.AList"
begin

section \<open>Two-green-candle filter: the data model\<close>

subsection \<open>Floating-point values\<close>

text \<open>
  Prices, volumes and the moving average are float64 columns of a pandas DataFrame.
  The model keeps the special values of IEEE arithmetic as constructors and treats a
  finite value as a real number: rounding and overflow of finite results are not
  modelled, and the two zeros are one value, read as the positive zero.
\<close>

datatype pyfloat = NaN | NInf | Fin real | PInf

text \<open>\<open>a < b\<close>: every comparison with NaN is false.\<close>

fun flt :: "pyfloat \<Rightarrow> pyfloat \<Rightarrow> bool" where
  "flt NaN b = False"
| "flt NInf NaN = False"
| "flt NInf NInf = False"
| "flt NInf (Fin y) = True"
| "flt NInf PInf = True"
| "flt (Fin x) NaN = False"
| "flt (Fin x) NInf = False"
| "flt (Fin x) (Fin y) = (x < y)"
| "flt (Fin x) PInf = True"
| "flt PInf b = False"

text \<open>\<open>a > b\<close> and \<open>a >= b\<close>.\<close>

definition fgt :: "pyfloat \<Rightarrow> pyfloat \<Rightarrow> bool" where
  "fgt a b = flt b a"


definition isna :: "pyfloat \<Rightarrow> bool" where
  "isna a = (a = NaN)"

definition is_inf :: "pyfloat \<Rightarrow> bool" where
  "is_inf a = (a = PInf \<or> a = NInf)"

definition is_finite :: "pyfloat \<Rightarrow> bool" where
  "is_finite a = (case a of Fin x \<Rightarrow> True | _ \<Rightarrow> False)"

text \<open>The sign bit of a value that is not NaN (the single zero is positive).\<close>

definition is_neg :: "pyfloat \<Rightarrow> bool" where
  "is_neg a = (case a of NInf \<Rightarrow> True | Fin x \<Rightarrow> x < 0 | _ \<Rightarrow> False)"

definition inf_of_sign :: "bool \<Rightarrow> pyfloat" where
  "inf_of_sign neg = (if neg then NInf else PInf)"

text \<open>
  float64 arithmetic as numpy scalars do it: no operation raises; a division by zero
  gives an infinity of the sign of the quotient, and \<open>0 / 0\<close>, \<open>inf - inf\<close>,
  \<open>inf / inf\<close> and \<open>0 * inf\<close> give NaN.
\<close>

fun fsub :: "pyfloat \<Rightarrow> pyfloat \<Rightarrow> pyfloat" where
  "fsub NaN b = NaN"
| "fsub NInf NaN = NaN"
| "fsub NInf NInf = NaN"
| "fsub NInf (Fin y) = NInf"
| "fsub NInf PInf = NInf"
| "fsub (Fin x) NaN = NaN"
| "fsub (Fin x) NInf = PInf"
| "fsub (Fin x) (Fin y) = Fin (x - y)"
| "fsub (Fin x) PInf = NInf"
| "fsub PInf NaN = NaN"
| "fsub PInf NInf = PInf"
| "fsub PInf (Fin y) = PInf"
| "fsub PInf PInf = NaN"

definition fmul :: "pyfloat \<Rightarrow> pyfloat \<Rightarrow> pyfloat" where
  "fmul a b =
     (if a = NaN \<or> b = NaN then NaN
      else case (a, b) of
        (Fin x, Fin y) \<Rightarrow> Fin (x * y)
      | _ \<Rightarrow> if a = Fin 0 \<or> b = Fin 0 then NaN
             else inf_of_sign (is_neg a \<noteq> is_neg b))"

definition fdiv :: "pyfloat \<Rightarrow> pyfloat \<Rightarrow> pyfloat" where
  "fdiv a b =
     (if a = NaN \<or> b = NaN then NaN
      else if is_inf a \<and> is_inf b then NaN
      else if is_inf a then inf_of_sign (is_neg a \<noteq> is_neg b)
      else if is_inf b then Fin 0
      else case (a, b) of
        (Fin x, Fin y) \<Rightarrow>
          if y = 0 then (if x = 0 then NaN else inf_of_sign (x < 0))
          else Fin (x / y)
      | _ \<Rightarrow> NaN)"

text \<open>
  Python's builtin \<open>min(a, b)\<close> keeps its first argument unless the second compares
  smaller, so a NaN first argument is returned as it is.
\<close>

definition py_min :: "pyfloat \<Rightarrow> pyfloat \<Rightarrow> pyfloat" where
  "py_min a b = (if flt b a then b else a)"

subsection \<open>Errors\<close>

datatype py_error = IndexError | ExchangeError string

text \<open>
  Positional access \<open>xs.iloc[i]\<close> (and \<open>xs[i]\<close> on an index): a negative position
  counts from the end, a position out of range raises IndexError.
\<close>

definition iloc :: "'a list \<Rightarrow> int \<Rightarrow> py_error + 'a" where
  "iloc xs i =
     (if 0 \<le> i \<and> i < int (length xs) then Inr (xs ! nat i)
      else if i < 0 \<and> - int (length xs) \<le> i then Inr (xs ! nat (int (length xs) + i))
      else Inl IndexError)"

subsection \<open>Candles and frames\<close>

text \<open>
  One row of the OHLCV answer of the exchange, after its conversion to float columns
  (\<open>pd.DataFrame(ohlcv, columns=[...])\<close>; the REST variant adds \<open>astype(float)\<close>).
  The High column is carried along; no computation reads it.
\<close>

record candle =
  timestamp :: int
  Open :: pyfloat
  High :: pyfloat
  Low :: pyfloat
  Close :: pyfloat
  Volume :: pyfloat

text \<open>
  A row of the frame kept in \<open>self.data[symbol]\<close>: the candle and the two derived
  columns. (The ccxt variant also stores \<open>low_point\<close>, a copy of Low that nothing
  reads.)
\<close>

record row = candle +
  is_green :: bool
  MA28 :: pyfloat

subsection \<open>The 28-day moving average\<close>

text \<open>
  \<open>df['Close'].rolling(window=28).mean()\<close>. pandas computes a fixed window's mean
  with a running sum and a running count of the observations in the window
  (\<open>add_mean\<close>, \<open>remove_mean\<close>, \<open>calc_mean\<close> of its window aggregations): at each
  index the value that leaves the window is removed, the new one is added, and the
  result is the sum over the count when the count reaches \<open>min_periods\<close>, which
  defaults to the window length, and NaN otherwise. Infinite inputs are replaced by
  NaN first, and a NaN is not an observation.
\<close>

record roll_state =
  nobs :: nat
  sum_x :: real

definition prep_values :: "pyfloat list \<Rightarrow> pyfloat list" where
  "prep_values vs = map (\<lambda>v. if is_inf v then NaN else v) vs"

definition add_mean :: "pyfloat \<Rightarrow> roll_state \<Rightarrow> roll_state" where
  "add_mean v st =
     (case v of Fin x \<Rightarrow> \<lparr>nobs = nobs st + 1, sum_x = sum_x st + x\<rparr> | _ \<Rightarrow> st)"

definition remove_mean :: "pyfloat \<Rightarrow> roll_state \<Rightarrow> roll_state" where
  "remove_mean v st =
     (case v of Fin x \<Rightarrow> \<lparr>nobs = nobs st - 1, sum_x = sum_x st - x\<rparr> | _ \<Rightarrow> st)"

definition calc_mean :: "nat \<Rightarrow> roll_state \<Rightarrow> pyfloat" where
  "calc_mean minp st =
     (if minp \<le> nobs st \<and> 0 < nobs st then Fin (sum_x st / real (nobs st)) else NaN)"

text \<open>
  The loop over the indices \<open>i, i + 1, ...\<close>; the last argument counts the indices
  still to do. The window of index \<open>i\<close> is \<open>[max 0 (i + 1 - w), i + 1)\<close>.
\<close>

fun roll_loop :: "nat \<Rightarrow> pyfloat list \<Rightarrow> nat \<Rightarrow> roll_state \<Rightarrow> nat \<Rightarrow> pyfloat list" where
  "roll_loop w vs i st 0 = []"
| "roll_loop w vs i st (Suc k) =
     (let st1 = (if w \<le> i then remove_mean (vs ! (i - w)) st else st);
          st2 = add_mean (vs ! i) st1
      in calc_mean w st2 # roll_loop w vs (Suc i) st2 k)"

definition rolling_mean :: "nat \<Rightarrow> pyfloat list \<Rightarrow> pyfloat list" where
  "rolling_mean w vs =
     roll_loop w (prep_values vs) 0 \<lparr>nobs = 0, sum_x = 0\<rparr> (length vs)"

text \<open>
  The frame of a symbol (\<open>fetch_data\<close>: \<open>df['is_green'] = df['Close'] > df['Open']\<close>
  and \<open>df['MA28'] = df['Close'].rolling(window=28).mean()\<close>).
\<close>

definition build_frame :: "candle list \<Rightarrow> row list" where
  "build_frame cs =
     map (\<lambda>(c, m).
           \<lparr>timestamp = timestamp c, Open = Open c, High = High c, Low = Low c,
            Close = Close c, Volume = Volume c,
            is_green = fgt (Close c) (Open c), MA28 = m\<rparr>)
         (zip cs (rolling_mean 28 (map Close cs)))"

subsection \<open>The signal of one symbol\<close>

text \<open>An entry of \<open>matching_pairs\<close>.\<close>

record signal =
  symbol :: string
  last_close :: pyfloat
  last_date :: int
  ma28 :: pyfloat
  stop_loss :: pyfloat
  risk_pct :: pyfloat
  volume :: pyfloat

text \<open>
  The body of the loop of \<open>filter_pairs_with_signals\<close> for one item \<open>(symbol, df)\<close>
  of \<open>self.data\<close>, the same text in both variants: \<open>Inr None\<close> when the item is
  skipped or does not match, \<open>Inr (Some m)\<close> when \<open>m\<close> is appended, \<open>Inl e\<close> when
  the body raises. The values of a row \<open>df.iloc[-1]\<close> are numpy scalars, so the
  comparisons and the division are those of float64.
\<close>

definition evaluate :: "string \<Rightarrow> row list \<Rightarrow> py_error + signal option" where
  "evaluate s df =
     (if length df < 30 then Inr None
      else case iloc (map (\<lambda>r. isna (MA28 r)) df) (- 1) of
        Inl e \<Rightarrow> Inl e
      | Inr na \<Rightarrow>
          if na then Inr None
          else if 2 \<le> length df then
            (case iloc df (- 1) of
               Inl e \<Rightarrow> Inl e
             | Inr last_candle \<Rightarrow>
                 (case iloc df (- 2) of
                    Inl e \<Rightarrow> Inl e
                  | Inr second_last_candle \<Rightarrow>
                      if is_green last_candle \<and> is_green second_last_candle \<and>
                         fgt (Close last_candle) (MA28 last_candle)
                      then
                        (let stop = py_min (Low last_candle) (Low second_last_candle);
                             risk = fmul (fsub (fdiv (Close last_candle) stop) (Fin 1)) (Fin 100)
                         in case iloc (map timestamp df) (- 1) of
                              Inl e \<Rightarrow> Inl e
                            | Inr d \<Rightarrow>
                                Inr (Some \<lparr>symbol = s, last_close = Close last_candle,
                                           last_date = d, ma28 = MA28 last_candle,
                                           stop_loss = stop, risk_pct = risk,
                                           volume = Volume last_candle\<rparr>))
                      else Inr None))
          else Inr None)"

text \<open>
  The same loop body as the REST variant has it (\<open>two_green_filter_binance.py\<close>,
  lines 138 to 167), translated from that file on its own.
\<close>

definition evaluate_binance :: "string \<Rightarrow> row list \<Rightarrow> py_error + signal option" where
  "evaluate_binance s df =
     (if length df < 30 then Inr None
      else case iloc (map (\<lambda>r. isna (MA28 r)) df) (- 1) of
        Inl e \<Rightarrow> Inl e
      | Inr na \<Rightarrow>
          if na then Inr None
          else if 2 \<le> length df then
            (case iloc df (- 1) of
               Inl e \<Rightarrow> Inl e
             | Inr last_candle \<Rightarrow>
                 (case iloc df (- 2) of
                    Inl e \<Rightarrow> Inl e
                  | Inr second_last_candle \<Rightarrow>
                      if is_green last_candle \<and> is_green second_last_candle \<and>
                         fgt (Close last_candle) (MA28 last_candle)
                      then
                        (let stop = py_min (Low last_candle) (Low second_last_candle);
                             risk = fmul (fsub (fdiv (Close last_candle) stop) (Fin 1)) (Fin 100)
                         in case iloc (map timestamp df) (- 1) of
                              Inl e \<Rightarrow> Inl e
                            | Inr d \<Rightarrow>
                                Inr (Some \<lparr>symbol = s, last_close = Close last_candle,
                                           last_date = d, ma28 = MA28 last_candle,
                                           stop_loss = stop, risk_pct = risk,
                                           volume = Volume last_candle\<rparr>))
                      else Inr None))
          else Inr None)"

subsection \<open>Ranking\<close>

text \<open>
  \<open>sorted(matching_pairs, key=..., reverse=True)\<close>. CPython's sort is stable and
  compares keys with \<open><\<close> only; with \<open>reverse=True\<close> it reverses the list, sorts
  it ascending and reverses the result, which keeps equal keys in the order of the
  input. The ascending sort is modelled by the stable insertion sort (on keys that
  \<open><\<close> orders totally every stable sort returns the same list).
\<close>

fun insort_lt :: "('a \<Rightarrow> pyfloat) \<Rightarrow> 'a \<Rightarrow> 'a list \<Rightarrow> 'a list" where
  "insort_lt key x [] = [x]"
| "insort_lt key x (y # ys) =
     (if flt (key y) (key x) then y # insort_lt key x ys else x # y # ys)"

definition stable_sort :: "('a \<Rightarrow> pyfloat) \<Rightarrow> 'a list \<Rightarrow> 'a list" where
  "stable_sort key xs = foldr (insort_lt key) xs []"

definition py_sorted :: "('a \<Rightarrow> pyfloat) \<Rightarrow> bool \<Rightarrow> 'a list \<Rightarrow> 'a list" where
  "py_sorted key reverse xs =
     (if reverse then rev (stable_sort key (rev xs)) else stable_sort key xs)"

section \<open>The strategy object and the exchange\<close>

text \<open>
  What the functions print, one constructor per message: the two messages of
  \<open>fetch_all_pairs\<close>, then those of \<open>fetch_data\<close>. (The frame the ccxt variant
  prints and the time interval the REST variant prints are left out.)
\<close>

datatype event =
    FoundPairs nat
  | ErrorFetchingPairs py_error
  | FetchingData nat
  | DaysOfData string nat
  | NoData string
  | ErrorFetching string py_error

text \<open>
  The fields of \<open>CryptoTradingStrategy\<close> that the scan reads or writes.
  \<open>self.data\<close> is a dict: an association list in insertion order, which is the order
  \<open>items()\<close> iterates in. \<open>console\<close> is the printed output.
\<close>

record strategy =
  quote_currency :: string
  data :: "(string \<times> row list) list"
  matching_pairs :: "signal list"
  console :: "event list"

definition new_strategy :: "string \<Rightarrow> strategy" where
  "new_strategy q = \<lparr>quote_currency = q, data = [], matching_pairs = [], console = []\<rparr>"

text \<open>
  The ccxt exchange object: \<open>load_markets()\<close> answers with the markets (a dict keyed
  by symbol, here the list of its values in order) or raises; \<open>fetch_ohlcv(symbol, ...)\<close>
  answers with the candles of a symbol or raises. Within one scan the answer depends
  on the symbol only.
\<close>

record market =
  market_symbol :: string
  market_quote :: string
  market_active :: bool

record ccxt_exchange =
  load_markets :: "py_error + market list"
  fetch_ohlcv :: "string \<Rightarrow> py_error + candle list"

text \<open>
  The REST interface: the \<open>symbols\<close> of \<open>/api/v3/exchangeInfo\<close>, and the rows of
  \<open>/api/v3/klines\<close> as floats. \<open>Inl\<close> stands for every exception raised on the way
  (transport, HTTP status, JSON, a missing key, a number that does not parse).
\<close>

record symbol_info =
  info_symbol :: string
  quoteAsset :: string
  status :: string

record binance_api =
  exchangeInfo :: "py_error + symbol_info list"
  klines :: "string \<Rightarrow> py_error + candle list"

subsection \<open>Listing the pairs\<close>

definition endswith :: "string \<Rightarrow> string \<Rightarrow> bool" where
  "endswith s suf = (length suf \<le> length s \<and> drop (length s - length suf) s = suf)"

definition fetch_all_pairs_ccxt :: "ccxt_exchange \<Rightarrow> strategy \<Rightarrow> string list \<times> strategy" where
  "fetch_all_pairs_ccxt ex st =
     (case load_markets ex of
        Inr markets \<Rightarrow>
          (let symbols = filter (\<lambda>k. endswith k (''/'' @ quote_currency st))
                                (map market_symbol markets)
           in (symbols, st\<lparr>console := console st @ [FoundPairs (length symbols)]\<rparr>))
      | Inl e \<Rightarrow> ([], st\<lparr>console := console st @ [ErrorFetchingPairs e]\<rparr>))"

definition fetch_all_pairs_binance :: "binance_api \<Rightarrow> strategy \<Rightarrow> string list \<times> strategy" where
  "fetch_all_pairs_binance api st =
     (case exchangeInfo api of
        Inr infos \<Rightarrow>
          (let symbols = map info_symbol
                 (filter (\<lambda>item. quoteAsset item = quote_currency st \<and>
                                  status item = ''TRADING'') infos)
           in (symbols, st\<lparr>console := console st @ [FoundPairs (length symbols)]\<rparr>))
      | Inl e \<Rightarrow> ([], st\<lparr>console := console st @ [ErrorFetchingPairs e]\<rparr>))"

subsection \<open>Fetching the candles\<close>

text \<open>The slice \<open>xs[:n]\<close>: a negative \<open>n\<close> counts from the end.\<close>

definition slice_to :: "'a list \<Rightarrow> int \<Rightarrow> 'a list" where
  "slice_to xs n = (if n < 0 then take (nat (int (length xs) + n)) xs else take (nat n) xs)"

text \<open>
  \<open>all_symbols[:limit_pairs] if limit_pairs else all_symbols\<close>: None and 0 are both
  false.
\<close>

definition limit_symbols :: "int option \<Rightarrow> string list \<Rightarrow> string list" where
  "limit_symbols limit_pairs all_symbols =
     (case limit_pairs of
        None \<Rightarrow> all_symbols
      | Some n \<Rightarrow> if n \<noteq> 0 then slice_to all_symbols n else all_symbols)"

text \<open>
  The loop \<open>for symbol in symbols\<close> of \<open>fetch_data\<close>, the same in both variants but
  for the call that fetches: an exception in the body is caught and printed, and the
  loop goes on with the next symbol.
\<close>

fun fetch_symbols :: "(string \<Rightarrow> py_error + candle list) \<Rightarrow> string list \<Rightarrow> strategy \<Rightarrow> strategy" where
  "fetch_symbols fetch [] st = st"
| "fetch_symbols fetch (k # rest) st =
     fetch_symbols fetch rest
       (case fetch k of
          Inr ohlcv \<Rightarrow>
            if 0 < length ohlcv then
              st\<lparr>data := AList.update k (build_frame ohlcv) (data st),
                 console := console st @ [DaysOfData k (length ohlcv)]\<rparr>
            else st\<lparr>console := console st @ [NoData k]\<rparr>
        | Inl e \<Rightarrow> st\<lparr>console := console st @ [ErrorFetching k e]\<rparr>)"

definition fetch_data_ccxt :: "int option \<Rightarrow> ccxt_exchange \<Rightarrow> strategy \<Rightarrow> nat \<times> strategy" where
  "fetch_data_ccxt limit_pairs ex st =
     (let (all_symbols, st1) = fetch_all_pairs_ccxt ex st;
          symbols = limit_symbols limit_pairs all_symbols;
          st2 = st1\<lparr>console := console st1 @ [FetchingData (length symbols)]\<rparr>;
          st3 = fetch_symbols (fetch_ohlcv ex) symbols st2
      in (length (data st3), st3))"

definition fetch_data_binance :: "int option \<Rightarrow> binance_api \<Rightarrow> strategy \<Rightarrow> nat \<times> strategy" where
  "fetch_data_binance limit_pairs api st =
     (let (all_symbols, st1) = fetch_all_pairs_binance api st;
          symbols = limit_symbols limit_pairs all_symbols;
          st2 = st1\<lparr>console := console st1 @ [FetchingData (length symbols)]\<rparr>;
          st3 = fetch_symbols (klines api) symbols st2
      in (length (data st3), st3))"

subsection \<open>Filtering and the whole scan\<close>

text \<open>
  \<open>for symbol, df in self.data.items()\<close>: the matches are appended in the order of
  the dict; an exception of the body leaves the function.
\<close>

fun collect_ccxt :: "(string \<times> row list) list \<Rightarrow> signal list \<Rightarrow> py_error + signal list" where
  "collect_ccxt [] acc = Inr acc"
| "collect_ccxt ((k, df) # rest) acc =
     (case evaluate k df of
        Inl e \<Rightarrow> Inl e
      | Inr None \<Rightarrow> collect_ccxt rest acc
      | Inr (Some m) \<Rightarrow> collect_ccxt rest (acc @ [m]))"

fun collect_binance :: "(string \<times> row list) list \<Rightarrow> signal list \<Rightarrow> py_error + signal list" where
  "collect_binance [] acc = Inr acc"
| "collect_binance ((k, df) # rest) acc =
     (case evaluate_binance k df of
        Inl e \<Rightarrow> Inl e
      | Inr None \<Rightarrow> collect_binance rest acc
      | Inr (Some m) \<Rightarrow> collect_binance rest (acc @ [m]))"

text \<open>\<open>filter_pairs_with_signals\<close> of \<open>2_green_filter.py\<close>.\<close>

definition filter_pairs_with_signals_ccxt :: "strategy \<Rightarrow> py_error + signal list \<times> strategy" where
  "filter_pairs_with_signals_ccxt st =
     (case collect_ccxt (data st) [] of
        Inl e \<Rightarrow> Inl e
      | Inr found \<Rightarrow>
          (let ms = py_sorted volume True found
           in Inr (ms, st\<lparr>matching_pairs := ms\<rparr>)))"

text \<open>
  \<open>filter_pairs_with_signals\<close> of \<open>two_green_filter_binance.py\<close>: it fetches the
  data itself (line 132) and then runs \<open>signal_steps_binance\<close>, its lines 134 to 173.
\<close>

definition signal_steps_binance :: "strategy \<Rightarrow> py_error + signal list \<times> strategy" where
  "signal_steps_binance st =
     (case collect_binance (data st) [] of
        Inl e \<Rightarrow> Inl e
      | Inr found \<Rightarrow>
          (let ms = py_sorted volume True found
           in Inr (ms, st\<lparr>matching_pairs := ms\<rparr>)))"

definition filter_pairs_with_signals_binance :: "binance_api \<Rightarrow> strategy \<Rightarrow> py_error + signal list \<times> strategy" where
  "filter_pairs_with_signals_binance api st =
     signal_steps_binance (snd (fetch_data_binance None api st))"

text \<open>
  The main block of \<open>2_green_filter.py\<close>: \<open>strategy.fetch_data()\<close>, then
  \<open>strategy.filter_pairs_with_signals()\<close>.
\<close>

definition scan_ccxt :: "ccxt_exchange \<Rightarrow> strategy \<Rightarrow> py_error + signal list \<times> strategy" where
  "scan_ccxt ex st = filter_pairs_with_signals_ccxt (snd (fetch_data_ccxt None ex st))"

text \<open>
  The scan of \<open>scheduled_scan\<close> of \<open>crypto_telegram_bot.py\<close> (lines 146 to 158): a
  new strategy object for USDT, \<open>fetch_data()\<close>, then \<open>filter_pairs_with_signals()\<close>,
  which fetches once more on the same object. The two arguments are the exchange as
  it answers during the first and during the second fetch.
\<close>

definition scheduled_scan :: "binance_api \<Rightarrow> binance_api \<Rightarrow> py_error + signal list \<times> strategy" where
  "scheduled_scan api1 api2 =
     (let (pairs_count, st1) = fetch_data_binance None api1 (new_strategy ''USDT'')
      in filter_pairs_with_signals_binance api2 st1)"

text \<open>The list a scan returns to its caller, or the exception it raises.\<close>

definition returned :: "py_error + signal list \<times> strategy \<Rightarrow> py_error + signal list" where
  "returned r = (case r of Inl e \<Rightarrow> Inl e | Inr (ms, st) \<Rightarrow> Inr ms)"

section \<open>Vocabulary of the statements\<close>

text \<open>The real number a finite value stands for (0 for the special values).\<close>

fun fin_val :: "pyfloat \<Rightarrow> real" where
  "fin_val (Fin x) = x"
| "fin_val NaN = 0"
| "fin_val NInf = 0"
| "fin_val PInf = 0"

text \<open>
  The count and the sum of the finite values at the indices \<open>lo, ..., hi - 1\<close>: what
  the running state of the moving average holds for that window.
\<close>

definition window_stats :: "pyfloat list \<Rightarrow> nat \<Rightarrow> nat \<Rightarrow> roll_state" where
  "window_stats vs lo hi =
     \<lparr>nobs = (\<Sum>k = lo..<hi. if is_finite (vs ! k) then 1 else 0),
      sum_x = (\<Sum>k = lo..<hi. fin_val (vs ! k))\<rparr>"

text \<open>
  The symbols the loop of \<open>fetch_data\<close> has processed, in order: each pass of the
  loop body prints exactly one of its three messages about the symbol.
\<close>

fun event_symbol :: "event \<Rightarrow> string list" where
  "event_symbol (DaysOfData k n) = [k]"
| "event_symbol (NoData k) = [k]"
| "event_symbol (ErrorFetching k e) = [k]"
| "event_symbol (FoundPairs n) = []"
| "event_symbol (ErrorFetchingPairs e) = []"
| "event_symbol (FetchingData n) = []"

definition processed :: "event list \<Rightarrow> string list" where
  "processed evs = concat (map event_symbol evs)"

text \<open>
  The matches of the frames of \<open>self.data\<close> in the order of the dict, which is the
  order in which the loop of \<open>filter_pairs_with_signals\<close> encounters them.
\<close>

fun encountered :: "(string \<times> row list) list \<Rightarrow> signal list" where
  "encountered [] = []"
| "encountered ((k, df) # rest) =
     (case evaluate k df of
        Inr (Some m) \<Rightarrow> m # encountered rest
      | Inr None \<Rightarrow> encountered rest
      | Inl e \<Rightarrow> encountered rest)"

section \<open>Example inputs\<close>

text \<open>
  Forty daily candles: thirty-seven quiet days at 100, a red day, and two green days
  that close at 99.5 and 105, with lows 98 and 99. The mean of the last 28 closes
  is 100.
\<close>

definition quiet_day :: "nat \<Rightarrow> candle" where
  "quiet_day i = \<lparr>timestamp = 86400000 * int i, Open = Fin 100, High = Fin 101,
                   Low = Fin 99, Close = Fin 100, Volume = Fin 1000\<rparr>"

definition series_A :: "candle list" where
  "series_A = map quiet_day [0..<37] @
     [\<lparr>timestamp = 3196800000, Open = Fin 100, High = Fin 101, Low = Fin 95,
       Close = Fin (191 / 2), Volume = Fin 1000\<rparr>,
      \<lparr>timestamp = 3283200000, Open = Fin (197 / 2), High = Fin 100, Low = Fin 98,
       Close = Fin (199 / 2), Volume = Fin 2000\<rparr>,
      \<lparr>timestamp = 3369600000, Open = Fin 100, High = Fin 106, Low = Fin 99,
       Close = Fin 105, Volume = Fin 500000\<rparr>]"

text \<open>The same series with the close of day 20 missing, and with a last low of 0.\<close>

definition series_gap :: "candle list" where
  "series_gap = series_A[20 := (quiet_day 20)\<lparr>Close := NaN\<rparr>]"

definition series_zero :: "candle list" where
  "series_zero = series_A[39 := (series_A ! 39)\<lparr>Low := Fin 0\<rparr>]"

text \<open>A signal of a given symbol and volume.\<close>

definition sig :: "string \<Rightarrow> real \<Rightarrow> signal" where
  "sig k v = \<lparr>symbol = k, last_close = Fin 105, last_date = 3369600000, ma28 = Fin 100,
              stop_loss = Fin 98, risk_pct = Fin (50 / 7), volume = Fin v\<rparr>"

text \<open>A ccxt exchange whose only market is a delisted pair.\<close>

definition ex_delisted :: ccxt_exchange where
  "ex_delisted =
     \<lparr>load_markets = Inr [\<lparr>market_symbol = ''LUNA/USDT'', market_quote = ''USDT'',
                            market_active = False\<rparr>],
      fetch_ohlcv = (\<lambda>k. Inr [])\<rparr>"

text \<open>
  Three REST interfaces: one whose listing fails, one that lists a single pair with
  one day of data, and one that lists three pairs of which the second cannot be
  fetched.
\<close>

definition api_down :: binance_api where
  "api_down =
     \<lparr>exchangeInfo = Inl (ExchangeError ''503 Service Unavailable''),
      klines = (\<lambda>k. Inr series_A)\<rparr>"

definition api_quiet :: binance_api where
  "api_quiet =
     \<lparr>exchangeInfo = Inr [\<lparr>info_symbol = ''BTCUSDT'', quoteAsset = ''USDT'',
                            status = ''TRADING''\<rparr>],
      klines = (\<lambda>k. Inr [quiet_day 0])\<rparr>"

definition api_partial :: binance_api where
  "api_partial =
     \<lparr>exchangeInfo = Inr [\<lparr>info_symbol = ''AAAUSDT'', quoteAsset = ''USDT'', status = ''TRADING''\<rparr>,
                          \<lparr>info_symbol = ''BBBUSDT'', quoteAsset = ''USDT'', status = ''TRADING''\<rparr>,
                          \<lparr>info_symbol = ''CCCUSDT'', quoteAsset = ''USDT'', status = ''TRADING''\<rparr>],
      klines = (\<lambda>k. if k = ''BBBUSDT'' then Inl (ExchangeError ''timeout'') else Inr series_A)\<rparr>"

text \<open>
  Two ccxt exchanges: one whose \<open>load_markets\<close> raises, and one with three markets of
  which the second cannot be fetched and the third has another quote currency.
\<close>

definition ex_down :: ccxt_exchange where
  "ex_down =
     \<lparr>load_markets = Inl (ExchangeError ''network unreachable''),
      fetch_ohlcv = (\<lambda>k. Inr series_A)\<rparr>"

definition ex_partial :: ccxt_exchange where
  "ex_partial =
     \<lparr>load_markets = Inr [\<lparr>market_symbol = ''AAA/USDT'', market_quote = ''USDT'', market_active = True\<rparr>,
                          \<lparr>market_symbol = ''BBB/USDT'', market_quote = ''USDT'', market_active = True\<rparr>,
                          \<lparr>market_symbol = ''CCC/BTC'', market_quote = ''BTC'', market_active = True\<rparr>],
      fetch_ohlcv = (\<lambda>k. if k = ''BBB/USDT'' then Inl (ExchangeError ''timeout'') else Inr series_A)\<rparr>"

text \<open>
  The REST interface of \<open>api_partial\<close> when every fetch succeeds, and a strategy
  object holding four matching frames whose last volumes are 5, 9, 5 and 7.
\<close>

definition api_all_ok :: binance_api where
  "api_all_ok = api_partial\<lparr>klines := (\<lambda>k. Inr series_A)\<rparr>"



section \<open>Positional access and the evaluator\<close>

lemma iloc_last: "xs \<noteq> [] \<Longrightarrow> iloc xs (- 1) = Inr (last xs)"
  by (cases xs rule: rev_cases) (auto simp: iloc_def nth_append)

lemma iloc_second_last: "2 \<le> length xs \<Longrightarrow> iloc xs (- 2) = Inr (xs ! (length xs - 2))"
  by (auto simp: iloc_def nat_diff_distrib' intro!: arg_cong[where f="(!) xs"])

lemma evaluate_skip:
  "length df < 30 \<or> isna (MA28 (last df)) \<Longrightarrow> evaluate s df = Inr None"
  by (cases "df = []") (auto simp: evaluate_def iloc_last last_map)

lemma evaluate_eq:
  assumes "30 \<le> length df" and "\<not> isna (MA28 (last df))"
  shows "evaluate s df =
     (if is_green (last df) \<and> is_green (df ! (length df - 2)) \<and>
         fgt (Close (last df)) (MA28 (last df))
      then Inr (Some \<lparr>symbol = s, last_close = Close (last df),
                       last_date = timestamp (last df), ma28 = MA28 (last df),
                       stop_loss = py_min (Low (last df)) (Low (df ! (length df - 2))),
                       risk_pct = fmul (fsub (fdiv (Close (last df))
                            (py_min (Low (last df)) (Low (df ! (length df - 2))))) (Fin 1)) (Fin 100),
                       volume = Volume (last df)\<rparr>)
      else Inr None)"
proof -
  from assms have ne: "df \<noteq> []" and two: "2 \<le> length df" by auto
  show ?thesis
    using assms ne two
    by (simp add: evaluate_def iloc_last iloc_second_last last_map Let_def)
qed

lemma evaluate_binance_eq: "evaluate_binance = evaluate"
  by (intro ext) (simp add: evaluate_binance_def evaluate_def)

section \<open>The moving average\<close>

lemma add_mean_stats:
  assumes "lo \<le> hi" and "\<not> is_inf (vs ! hi)"
  shows "add_mean (vs ! hi) (window_stats vs lo hi) = window_stats vs lo (Suc hi)"
  using assms
  by (cases "vs ! hi") (simp_all add: add_mean_def window_stats_def is_finite_def is_inf_def)

lemma remove_mean_stats:
  assumes "lo < hi" and "\<not> is_inf (vs ! lo)"
  shows "remove_mean (vs ! lo) (window_stats vs lo hi) = window_stats vs (Suc lo) hi"
  using assms
  by (cases "vs ! lo")
     (simp_all add: remove_mean_def window_stats_def is_finite_def is_inf_def
        sum.atLeast_Suc_lessThan)

lemma roll_loop_nth:
  assumes "0 < w" and "\<forall>n < length vs. \<not> is_inf (vs ! n)"
    and "i + k \<le> length vs" and "j < k"
    and "st = window_stats vs (i - w) i"
  shows "roll_loop w vs i st k ! j = calc_mean w (window_stats vs (Suc (i + j) - w) (Suc (i + j)))"
  using assms(3-5)
proof (induction k arbitrary: i st j)
  case 0
  then show ?case by simp
next
  case (Suc k)
  define st1 where "st1 = (if w \<le> i then remove_mean (vs ! (i - w)) st else st)"
  define st2 where "st2 = add_mean (vs ! i) st1"
  have i_lt: "i < length vs" using Suc.prems by simp
  have st1_eq: "st1 = window_stats vs (Suc i - w) i"
  proof (cases "w \<le> i")
    case True
    then have "i - w < i" using assms(1) by simp
    moreover have "\<not> is_inf (vs ! (i - w))" using assms(2) i_lt by simp
    ultimately have "remove_mean (vs ! (i - w)) (window_stats vs (i - w) i)
        = window_stats vs (Suc (i - w)) i"
      by (rule remove_mean_stats)
    with True show ?thesis by (simp add: st1_def Suc.prems(3) Suc_diff_le)
  next
    case False
    then show ?thesis by (simp add: st1_def Suc.prems(3))
  qed
  have st2_eq: "st2 = window_stats vs (Suc i - w) (Suc i)"
  proof -
    have "Suc i - w \<le> i" using assms(1) by simp
    moreover have "\<not> is_inf (vs ! i)" using assms(2) i_lt by simp
    ultimately show ?thesis unfolding st2_def st1_eq by (rule add_mean_stats)
  qed
  have unfold: "roll_loop w vs i st (Suc k) = calc_mean w st2 # roll_loop w vs (Suc i) st2 k"
    by (simp add: st1_def st2_def Let_def)
  show ?case
  proof (cases j)
    case 0
    show ?thesis unfolding unfold 0 by (simp add: st2_eq)
  next
    case (Suc j')
    have "roll_loop w vs (Suc i) st2 k ! j'
        = calc_mean w (window_stats vs (Suc (Suc i + j') - w) (Suc (Suc i + j')))"
    proof (rule Suc.IH)
      show "Suc i + k \<le> length vs" using Suc.prems by simp
      show "j' < k" using Suc.prems Suc by simp
      show "st2 = window_stats vs (Suc i - w) (Suc i)" by (rule st2_eq)
    qed
    then show ?thesis unfolding unfold Suc by simp
  qed
qed

lemma length_roll_loop: "length (roll_loop w vs i st k) = k"
  by (induction k arbitrary: i st) (simp_all add: Let_def)

lemma length_rolling_mean: "length (rolling_mean w vs) = length vs"
  by (simp add: rolling_mean_def length_roll_loop)

lemma prep_values_no_inf: "n < length vs \<Longrightarrow> \<not> is_inf (prep_values vs ! n)"
  by (simp add: prep_values_def is_inf_def)

lemma rolling_mean_nth:
  assumes "0 < w" and "i < length vs"
  shows "rolling_mean w vs ! i = calc_mean w (window_stats (prep_values vs) (Suc i - w) (Suc i))"
proof -
  have "roll_loop w (prep_values vs) 0 \<lparr>nobs = 0, sum_x = 0\<rparr> (length vs) ! i
      = calc_mean w (window_stats (prep_values vs) (Suc (0 + i) - w) (Suc (0 + i)))"
  proof (rule roll_loop_nth[OF assms(1)])
    show "\<forall>n<length (prep_values vs). \<not> is_inf (prep_values vs ! n)"
      by (simp add: prep_values_def is_inf_def)
    show "0 + length vs \<le> length (prep_values vs)" by (simp add: prep_values_def)
    show "i < length vs" by (rule assms(2))
    show "\<lparr>nobs = 0, sum_x = 0\<rparr> = window_stats (prep_values vs) (0 - w) 0"
      by (simp add: window_stats_def)
  qed
  then show ?thesis by (simp add: rolling_mean_def)
qed

lemma nobs_window_le: "nobs (window_stats vs lo hi) \<le> hi - lo"
proof -
  have "nobs (window_stats vs lo hi) \<le> (\<Sum>k = lo..<hi. 1)"
    unfolding window_stats_def by (simp del: sum_constant) (rule sum_mono, simp)
  then show ?thesis by simp
qed

lemma rolling_mean_early:
  assumes "0 < w" and "i < length vs" and "Suc i < w"
  shows "rolling_mean w vs ! i = NaN"
proof -
  have "nobs (window_stats (prep_values vs) (Suc i - w) (Suc i)) \<le> Suc i"
    using nobs_window_le[of "prep_values vs" "Suc i - w" "Suc i"] by simp
  with assms(3) show ?thesis
    by (simp add: rolling_mean_nth[OF assms(1,2)] calc_mean_def)
qed

lemma window_stats_finite:
  assumes "\<forall>k. lo \<le> k \<and> k < hi \<longrightarrow> is_finite (vs ! k)"
  shows "window_stats vs lo hi = \<lparr>nobs = hi - lo, sum_x = (\<Sum>k = lo..<hi. fin_val (vs ! k))\<rparr>"
  using assms by (simp add: window_stats_def)

lemma prep_values_finite: "k < length vs \<Longrightarrow> is_finite (vs ! k) \<Longrightarrow> prep_values vs ! k = vs ! k"
  by (cases "vs ! k") (simp_all add: prep_values_def is_inf_def is_finite_def)

lemma rolling_mean_full:
  assumes "0 < w" and "i < length vs" and "w \<le> Suc i"
    and "\<forall>k. Suc i - w \<le> k \<and> k \<le> i \<longrightarrow> is_finite (vs ! k)"
  shows "rolling_mean w vs ! i = Fin ((\<Sum>k = Suc i - w..i. fin_val (vs ! k)) / real w)"
proof -
  have same: "\<And>k. Suc i - w \<le> k \<and> k < Suc i \<Longrightarrow> prep_values vs ! k = vs ! k"
    using assms(2,4) by (intro prep_values_finite) auto
  have "window_stats (prep_values vs) (Suc i - w) (Suc i)
      = \<lparr>nobs = Suc i - (Suc i - w), sum_x = (\<Sum>k = Suc i - w..<Suc i. fin_val (prep_values vs ! k))\<rparr>"
    by (rule window_stats_finite) (use same assms(4) in auto)
  also have "(\<Sum>k = Suc i - w..<Suc i. fin_val (prep_values vs ! k))
      = (\<Sum>k = Suc i - w..<Suc i. fin_val (vs ! k))"
    by (rule sum.cong) (use same in auto)
  finally have "window_stats (prep_values vs) (Suc i - w) (Suc i)
      = \<lparr>nobs = w, sum_x = (\<Sum>k = Suc i - w..i. fin_val (vs ! k))\<rparr>"
    using assms(3) by (simp add: atLeastLessThanSuc_atLeastAtMost)
  then show ?thesis
    using assms(1) by (simp add: rolling_mean_nth[OF assms(1,2)] calc_mean_def)
qed

section \<open>Frames\<close>

lemma length_build_frame: "length (build_frame cs) = length cs"
  by (simp add: build_frame_def length_rolling_mean)

lemma build_frame_nth:
  assumes "i < length cs"
  shows "build_frame cs ! i =
     \<lparr>timestamp = timestamp (cs ! i), Open = Open (cs ! i), High = High (cs ! i),
      Low = Low (cs ! i), Close = Close (cs ! i), Volume = Volume (cs ! i),
      is_green = fgt (Close (cs ! i)) (Open (cs ! i)),
      MA28 = rolling_mean 28 (map Close cs) ! i\<rparr>"
  using assms by (simp add: build_frame_def length_rolling_mean)

lemma build_frame_last:
  assumes "cs \<noteq> []"
  shows "last (build_frame cs) =
     \<lparr>timestamp = timestamp (last cs), Open = Open (last cs), High = High (last cs),
      Low = Low (last cs), Close = Close (last cs), Volume = Volume (last cs),
      is_green = fgt (Close (last cs)) (Open (last cs)),
      MA28 = rolling_mean 28 (map Close cs) ! (length cs - 1)\<rparr>"
proof -
  have "build_frame cs \<noteq> []" using assms length_build_frame[of cs] by auto
  then have "last (build_frame cs) = build_frame cs ! (length cs - 1)"
    by (simp add: last_conv_nth length_build_frame)
  also have "\<dots> = \<lparr>timestamp = timestamp (cs ! (length cs - 1)), Open = Open (cs ! (length cs - 1)),
      High = High (cs ! (length cs - 1)),
      Low = Low (cs ! (length cs - 1)), Close = Close (cs ! (length cs - 1)),
      Volume = Volume (cs ! (length cs - 1)),
      is_green = fgt (Close (cs ! (length cs - 1))) (Open (cs ! (length cs - 1))),
      MA28 = rolling_mean 28 (map Close cs) ! (length cs - 1)\<rparr>"
    using assms by (intro build_frame_nth) simp
  finally show ?thesis using assms by (simp add: last_conv_nth)
qed

section \<open>The claims about the evaluator\<close>

text \<open>
  C1. For a series of at least 30 candles whose moving average is defined at the last
  index, \<open>evaluate\<close> returns a match exactly when the last two candles have
  \<open>close > open\<close> and the last close is above its MA28; the match carries the last
  close, the last timestamp, the last MA28, the stop-loss \<open>min(low[n-1], low[n-2])\<close>,
  the risk percentage and the last volume.
\<close>

theorem evaluate_match_iff:
  assumes "30 \<le> length cs" and "\<not> isna (MA28 (last (build_frame cs)))"
  shows "evaluate s (build_frame cs) =
     (if fgt (Close (last cs)) (Open (last cs)) \<and>
         fgt (Close (cs ! (length cs - 2))) (Open (cs ! (length cs - 2))) \<and>
         fgt (Close (last cs)) (MA28 (last (build_frame cs)))
      then Inr (Some \<lparr>symbol = s, last_close = Close (last cs),
                       last_date = timestamp (last cs),
                       ma28 = MA28 (last (build_frame cs)),
                       stop_loss = py_min (Low (last cs)) (Low (cs ! (length cs - 2))),
                       risk_pct = fmul (fsub (fdiv (Close (last cs))
                            (py_min (Low (last cs)) (Low (cs ! (length cs - 2))))) (Fin 1)) (Fin 100),
                       volume = Volume (last cs)\<rparr>)
      else Inr None)"
proof -
  from assms(1) have ne: "cs \<noteq> []" and i2: "length cs - 2 < length cs" by auto
  have len: "30 \<le> length (build_frame cs)" using assms(1) by (simp add: length_build_frame)
  note l = build_frame_last[OF ne]
  note p = build_frame_nth[OF i2]
  show ?thesis
    unfolding evaluate_eq[OF len assms(2)] length_build_frame
    by (simp add: l p)
qed

theorem evaluate_match_iff_witness:
  "30 \<le> length series_A \<and> \<not> isna (MA28 (last (build_frame series_A))) \<and>
   evaluate ''AAAUSDT'' (build_frame series_A) =
     Inr (Some \<lparr>symbol = ''AAAUSDT'', last_close = Fin 105, last_date = 3369600000,
                 ma28 = Fin 100, stop_loss = Fin 98, risk_pct = Fin (50 / 7),
                 volume = Fin 500000\<rparr>)"
proof -
  have h1: "30 \<le> length series_A" by code_simp
  have ma: "MA28 (last (build_frame series_A)) = Fin 100" by code_simp
  have h2: "\<not> isna (MA28 (last (build_frame series_A)))" by (simp add: ma isna_def)
  have c39: "last series_A = \<lparr>timestamp = 3369600000, Open = Fin 100, High = Fin 106,
       Low = Fin 99, Close = Fin 105, Volume = Fin 500000\<rparr>" by code_simp
  have c38: "series_A ! (length series_A - 2) = \<lparr>timestamp = 3283200000, Open = Fin (197 / 2),
       High = Fin 100, Low = Fin 98, Close = Fin (199 / 2), Volume = Fin 2000\<rparr>" by code_simp
  have risk: "fmul (fsub (fdiv (Fin 105) (Fin 98)) (Fin 1)) (Fin 100) = Fin (50 / 7)"
    by (simp add: fmul_def fdiv_def is_inf_def)
  show ?thesis
    using evaluate_match_iff[OF h1 h2, of "''AAAUSDT''"] h1 h2
    by (simp add: ma c39 c38 fgt_def py_min_def risk)
qed

text \<open>
  C2. A frame of fewer than 30 candles, and a frame whose MA28 is NaN at the last
  index, is skipped: \<open>evaluate\<close> returns no match and raises nothing.
\<close>

theorem evaluate_no_match:
  assumes "length df < 30 \<or> isna (MA28 (last df))"
  shows "evaluate s df = Inr None"
  using assms by (rule evaluate_skip)

theorem evaluate_no_match_witness:
  "length (build_frame (take 29 series_A)) < 30 \<and>
   evaluate ''AAAUSDT'' (build_frame (take 29 series_A)) = Inr None \<and>
   \<not> length (build_frame series_gap) < 30 \<and>
   isna (MA28 (last (build_frame series_gap))) \<and>
   evaluate ''GAPUSDT'' (build_frame series_gap) = Inr None"
proof -
  have short: "length (build_frame (take 29 series_A)) < 30"
    by (simp add: length_build_frame)
  have long: "\<not> length (build_frame series_gap) < 30" by code_simp
  have gap: "isna (MA28 (last (build_frame series_gap)))" by code_simp
  show ?thesis
    using evaluate_no_match[of "build_frame (take 29 series_A)" "''AAAUSDT''"]
      evaluate_no_match[of "build_frame series_gap" "''GAPUSDT''"] short long gap
    by simp
qed

section \<open>The moving average, the risk percentage, the cap and the listing\<close>

text \<open>
  C8. In the frame of a series the MA28 of an index below 27 is NaN, and the MA28 of
  an index \<open>i \<ge> 27\<close> is the arithmetic mean of the 28 closes at \<open>i - 27, ..., i\<close>.
\<close>

theorem moving_average_28:
  assumes "i < length cs"
  shows "(i < 27 \<longrightarrow> MA28 (build_frame cs ! i) = NaN) \<and>
         (27 \<le> i \<and> (\<forall>k \<in> {i - 27..i}. is_finite (Close (cs ! k))) \<longrightarrow>
            MA28 (build_frame cs ! i) = Fin ((\<Sum>k = i - 27..i. fin_val (Close (cs ! k))) / 28))"
proof (intro conjI impI)
  have ma: "MA28 (build_frame cs ! i) = rolling_mean 28 (map Close cs) ! i"
    by (simp add: build_frame_nth[OF assms])
  {
    assume "i < 27"
    then show "MA28 (build_frame cs ! i) = NaN"
      using assms by (simp add: ma rolling_mean_early)
  }
  {
    assume h: "27 \<le> i \<and> (\<forall>k \<in> {i - 27..i}. is_finite (Close (cs ! k)))"
    have fin: "\<forall>k. Suc i - 28 \<le> k \<and> k \<le> i \<longrightarrow> is_finite (map Close cs ! k)"
      using h assms by auto
    have "rolling_mean 28 (map Close cs) ! i
        = Fin ((\<Sum>k = Suc i - 28..i. fin_val (map Close cs ! k)) / real 28)"
      by (rule rolling_mean_full) (use h assms fin in auto)
    also have "(\<Sum>k = Suc i - 28..i. fin_val (map Close cs ! k))
        = (\<Sum>k = i - 27..i. fin_val (Close (cs ! k)))"
      by (rule sum.cong) (use assms in auto)
    finally show "MA28 (build_frame cs ! i) = Fin ((\<Sum>k = i - 27..i. fin_val (Close (cs ! k))) / 28)"
      by (simp add: ma)
  }
qed

theorem moving_average_28_witness:
  "5 < length series_A \<and> MA28 (build_frame series_A ! 5) = NaN \<and>
   39 < length series_A \<and> MA28 (build_frame series_A ! 39) = Fin (2800 / 28)"
proof -
  have l5: "5 < length series_A" and l39: "39 < length series_A" by code_simp+
  have fin: "\<forall>k \<in> {39 - 27..39}. is_finite (Close (series_A ! k))" by code_simp
  have total: "(\<Sum>k = 39 - 27..39. fin_val (Close (series_A ! k))) = 2800" by code_simp
  show ?thesis
    using moving_average_28[OF l5] moving_average_28[OF l39] l5 l39 fin total
    by simp
qed

text \<open>
  C3, as the code has it. For every matching frame the emitted risk percentage is
  \<open>(close / stop_loss - 1) * 100\<close> in float arithmetic, which on finite values with a
  stop-loss other than 0 is that real number. A stop-loss of 0 does not drop the
  match: it is emitted all the same, and its risk percentage is then infinite or NaN.
\<close>

theorem risk_pct_emitted:
  assumes "30 \<le> length df" and "\<not> isna (MA28 (last df))"
    and "is_green (last df)" and "is_green (df ! (length df - 2))"
    and "fgt (Close (last df)) (MA28 (last df))"
  shows "\<exists>m. evaluate s df = Inr (Some m) \<and>
           last_close m = Close (last df) \<and>
           stop_loss m = py_min (Low (last df)) (Low (df ! (length df - 2))) \<and>
           risk_pct m = fmul (fsub (fdiv (last_close m) (stop_loss m)) (Fin 1)) (Fin 100) \<and>
           (\<forall>c l. last_close m = Fin c \<and> stop_loss m = Fin l \<and> l \<noteq> 0 \<longrightarrow>
                  risk_pct m = Fin ((c / l - 1) * 100)) \<and>
           (stop_loss m = Fin 0 \<longrightarrow> \<not> is_finite (risk_pct m))"
proof -
  let ?stop = "py_min (Low (last df)) (Low (df ! (length df - 2)))"
  let ?risk = "fmul (fsub (fdiv (Close (last df)) ?stop) (Fin 1)) (Fin 100)"
  let ?m = "\<lparr>symbol = s, last_close = Close (last df), last_date = timestamp (last df),
             ma28 = MA28 (last df), stop_loss = ?stop, risk_pct = ?risk,
             volume = Volume (last df)\<rparr>"
  have ev: "evaluate s df = Inr (Some ?m)"
    using assms(3-5) by (simp add: evaluate_eq[OF assms(1,2)])
  have real: "\<And>c l. l \<noteq> 0 \<Longrightarrow> fmul (fsub (fdiv (Fin c) (Fin l)) (Fin 1)) (Fin 100) = Fin ((c / l - 1) * 100)"
    by (simp add: fdiv_def fmul_def is_inf_def)
  have zero: "\<not> is_finite (fmul (fsub (fdiv a (Fin 0)) (Fin 1)) (Fin 100))" for a
    by (cases a) (simp_all add: fdiv_def fmul_def is_inf_def is_finite_def inf_of_sign_def is_neg_def)
  show ?thesis
  proof (intro exI[of _ ?m] conjI)
    show "evaluate s df = Inr (Some ?m)" by (rule ev)
    show "\<forall>c l. last_close ?m = Fin c \<and> stop_loss ?m = Fin l \<and> l \<noteq> 0 \<longrightarrow>
                  risk_pct ?m = Fin ((c / l - 1) * 100)"
      using real by simp
    show "stop_loss ?m = Fin 0 \<longrightarrow> \<not> is_finite (risk_pct ?m)"
      using zero by simp
  qed simp_all
qed

theorem risk_pct_emitted_witness:
  "30 \<le> length (build_frame series_zero) \<and>
   \<not> isna (MA28 (last (build_frame series_zero))) \<and>
   is_green (last (build_frame series_zero)) \<and>
   is_green (build_frame series_zero ! (length (build_frame series_zero) - 2)) \<and>
   fgt (Close (last (build_frame series_zero))) (MA28 (last (build_frame series_zero))) \<and>
   (\<exists>m. evaluate ''ZEROUSDT'' (build_frame series_zero) = Inr (Some m) \<and>
        stop_loss m = Fin 0 \<and> \<not> is_finite (risk_pct m))"
proof -
  have h1: "30 \<le> length (build_frame series_zero)" by code_simp
  have h2: "\<not> isna (MA28 (last (build_frame series_zero)))" by code_simp
  have h3: "is_green (last (build_frame series_zero))" by code_simp
  have h4: "is_green (build_frame series_zero ! (length (build_frame series_zero) - 2))"
    by code_simp
  have h5: "fgt (Close (last (build_frame series_zero))) (MA28 (last (build_frame series_zero)))"
    by code_simp
  have stop: "py_min (Low (last (build_frame series_zero)))
       (Low (build_frame series_zero ! (length (build_frame series_zero) - 2))) = Fin 0"
    by code_simp
  from risk_pct_emitted[OF h1 h2 h3 h4 h5, of "''ZEROUSDT''"] obtain m where
    m: "evaluate ''ZEROUSDT'' (build_frame series_zero) = Inr (Some m)"
       "stop_loss m = py_min (Low (last (build_frame series_zero)))
          (Low (build_frame series_zero ! (length (build_frame series_zero) - 2)))"
       "stop_loss m = Fin 0 \<longrightarrow> \<not> is_finite (risk_pct m)"
    by blast
  from m stop have "evaluate ''ZEROUSDT'' (build_frame series_zero) = Inr (Some m) \<and>
        stop_loss m = Fin 0 \<and> \<not> is_finite (risk_pct m)" by simp
  then show ?thesis using h1 h2 h3 h4 h5 by blast
qed

text \<open>
  The claim as the spec states it fails on a series whose last low is 0: the match is
  emitted, with a stop-loss of 0 and an infinite risk percentage.
\<close>

theorem zero_stop_loss_counterexample:
  "evaluate ''ZEROUSDT'' (build_frame series_zero) =
     Inr (Some \<lparr>symbol = ''ZEROUSDT'', last_close = Fin 105, last_date = 3369600000,
                 ma28 = Fin 100, stop_loss = Fin 0, risk_pct = PInf,
                 volume = Fin 500000\<rparr>)"
  by code_simp

lemma limit_symbols_negative:
  "n < 0 \<Longrightarrow> limit_symbols (Some n) all_symbols = take (length all_symbols - nat (- n)) all_symbols"
  by (auto simp: limit_symbols_def slice_to_def intro!: arg_cong[where f="\<lambda>k. take k all_symbols"])

text \<open>
  The REST variant lists exactly the symbols of the requested quote asset whose
  status is TRADING.
\<close>

lemma fetch_all_pairs_binance_exact:
  assumes "exchangeInfo api = Inr infos"
  shows "set (fst (fetch_all_pairs_binance api st)) =
           {info_symbol item | item. item \<in> set infos \<and> quoteAsset item = quote_currency st \<and>
                                     status item = ''TRADING''}"
  using assms by (auto simp: fetch_all_pairs_binance_def)

theorem rest_listing_is_exact:
  assumes "exchangeInfo api = Inr infos"
  shows "set (fst (fetch_all_pairs_binance api st)) =
           {info_symbol item | item. item \<in> set infos \<and> quoteAsset item = quote_currency st \<and>
                                     status item = ''TRADING''}"
  using assms by (rule fetch_all_pairs_binance_exact)

theorem rest_listing_is_exact_witness:
  "exchangeInfo (api_partial\<lparr>exchangeInfo :=
       Inr [\<lparr>info_symbol = ''AAAUSDT'', quoteAsset = ''USDT'', status = ''TRADING''\<rparr>,
            \<lparr>info_symbol = ''BBBUSDT'', quoteAsset = ''USDT'', status = ''BREAK''\<rparr>,
            \<lparr>info_symbol = ''CCCBTC'', quoteAsset = ''BTC'', status = ''TRADING''\<rparr>]\<rparr>) =
     Inr [\<lparr>info_symbol = ''AAAUSDT'', quoteAsset = ''USDT'', status = ''TRADING''\<rparr>,
          \<lparr>info_symbol = ''BBBUSDT'', quoteAsset = ''USDT'', status = ''BREAK''\<rparr>,
          \<lparr>info_symbol = ''CCCBTC'', quoteAsset = ''BTC'', status = ''TRADING''\<rparr>] \<and>
   set (fst (fetch_all_pairs_binance (api_partial\<lparr>exchangeInfo :=
       Inr [\<lparr>info_symbol = ''AAAUSDT'', quoteAsset = ''USDT'', status = ''TRADING''\<rparr>,
            \<lparr>info_symbol = ''BBBUSDT'', quoteAsset = ''USDT'', status = ''BREAK''\<rparr>,
            \<lparr>info_symbol = ''CCCBTC'', quoteAsset = ''BTC'', status = ''TRADING''\<rparr>]\<rparr>)
       (new_strategy ''USDT''))) = {''AAAUSDT''}"
proof -
  let ?infos = "[\<lparr>info_symbol = ''AAAUSDT'', quoteAsset = ''USDT'', status = ''TRADING''\<rparr>,
            \<lparr>info_symbol = ''BBBUSDT'', quoteAsset = ''USDT'', status = ''BREAK''\<rparr>,
            \<lparr>info_symbol = ''CCCBTC'', quoteAsset = ''BTC'', status = ''TRADING''\<rparr>]"
  have h: "exchangeInfo (api_partial\<lparr>exchangeInfo := Inr ?infos\<rparr>) = Inr ?infos" by simp
  have "{info_symbol item | item. item \<in> set ?infos \<and>
           quoteAsset item = quote_currency (new_strategy ''USDT'') \<and> status item = ''TRADING''}
        = {''AAAUSDT''}"
    by (force simp: new_strategy_def)
  with rest_listing_is_exact[OF h, of "new_strategy ''USDT''"] h show ?thesis by simp
qed

text \<open>
  C6 fails on the ccxt variant: it tests the name of the market only, so a market
  that is not active is listed.
\<close>

theorem fetch_all_pairs_ccxt_lists_inactive:
  "load_markets ex_delisted =
     Inr [\<lparr>market_symbol = ''LUNA/USDT'', market_quote = ''USDT'', market_active = False\<rparr>] \<and>
   fst (fetch_all_pairs_ccxt ex_delisted (new_strategy ''USDT'')) = [''LUNA/USDT'']"
  by code_simp

section \<open>Ranking\<close>




lemma set_insort_lt: "set (insort_lt key x xs) = insert x (set xs)"
  by (induction xs) auto

lemma set_stable_sort: "set (stable_sort key xs) = set xs"
  by (induction xs) (simp_all add: stable_sort_def set_insort_lt)

lemma set_py_sorted: "set (py_sorted key r xs) = set xs"
  by (simp add: py_sorted_def set_stable_sort)







section \<open>The two variants\<close>

lemma collect_binance_eq: "collect_binance d acc = collect_ccxt d acc"
  by (induction d acc rule: collect_ccxt.induct)
     (simp_all add: evaluate_binance_eq split: sum.splits option.splits)

text \<open>
  C9. On the same fetched data the filtering steps of the two variants return the
  same list of matches, in the same order.
\<close>

theorem filter_variants_agree:
  assumes "data st1 = data st2"
  shows "returned (filter_pairs_with_signals_ccxt st1) = returned (signal_steps_binance st2)"
  using assms
  by (simp add: filter_pairs_with_signals_ccxt_def signal_steps_binance_def returned_def
        collect_binance_eq Let_def split: sum.splits)

theorem filter_variants_agree_witness:
  "data ((new_strategy ''USDT'')\<lparr>data := [(''AAAUSDT'', build_frame series_A)]\<rparr>) =
   data ((new_strategy ''BTC'')\<lparr>data := [(''AAAUSDT'', build_frame series_A)],
                                 console := [FoundPairs 1]\<rparr>) \<and>
   returned (filter_pairs_with_signals_ccxt
      ((new_strategy ''USDT'')\<lparr>data := [(''AAAUSDT'', build_frame series_A)]\<rparr>)) =
     Inr [sig ''AAAUSDT'' 500000] \<and>
   returned (signal_steps_binance
      ((new_strategy ''BTC'')\<lparr>data := [(''AAAUSDT'', build_frame series_A)],
                               console := [FoundPairs 1]\<rparr>)) =
     Inr [sig ''AAAUSDT'' 500000]"
proof -
  let ?st1 = "(new_strategy ''USDT'')\<lparr>data := [(''AAAUSDT'', build_frame series_A)]\<rparr>"
  let ?st2 = "(new_strategy ''BTC'')\<lparr>data := [(''AAAUSDT'', build_frame series_A)],
                                 console := [FoundPairs 1]\<rparr>"
  have h: "data ?st1 = data ?st2" by simp
  have one: "returned (filter_pairs_with_signals_ccxt ?st1) = Inr [sig ''AAAUSDT'' 500000]"
    by code_simp
  show ?thesis using filter_variants_agree[OF h] one by simp
qed

section \<open>The fetch loop and the scan\<close>

lemma evaluate_total: "\<exists>r. evaluate s df = Inr r"
proof (cases "length df < 30 \<or> isna (MA28 (last df))")
  case True
  then show ?thesis by (simp add: evaluate_skip)
next
  case False
  then show ?thesis by (simp add: evaluate_eq)
qed

text \<open>The loop body raises nothing, whatever the frame.\<close>

theorem evaluate_never_raises: "\<exists>r. evaluate s df = Inr r"
  by (rule evaluate_total)

lemma evaluate_symbol:
  assumes "evaluate s df = Inr (Some m)"
  shows "symbol m = s"
proof (cases "length df < 30 \<or> isna (MA28 (last df))")
  case True
  with assms show ?thesis by (simp add: evaluate_skip)
next
  case False
  with assms show ?thesis by (auto simp: evaluate_eq split: if_splits)
qed

lemma collect_ccxt_encountered: "collect_ccxt d acc = Inr (acc @ encountered d)"
proof (induction d arbitrary: acc)
  case Nil
  then show ?case by simp
next
  case (Cons p d)
  obtain k df where p: "p = (k, df)" by (cases p)
  obtain r where r: "evaluate k df = Inr r" using evaluate_total by blast
  show ?case by (cases r) (simp_all add: p r Cons)
qed

lemma set_encountered:
  "set (encountered d) = {m. \<exists>k df. (k, df) \<in> set d \<and> evaluate k df = Inr (Some m)}"
proof (induction d)
  case Nil
  then show ?case by simp
next
  case (Cons p d)
  obtain k df where p: "p = (k, df)" by (cases p)
  obtain r where r: "evaluate k df = Inr r" using evaluate_total by blast
  show ?case by (cases r) (use r in \<open>auto simp: p Cons\<close>)
qed

lemma filter_ccxt_result:
  "filter_pairs_with_signals_ccxt st =
     Inr (py_sorted volume True (encountered (data st)),
          st\<lparr>matching_pairs := py_sorted volume True (encountered (data st))\<rparr>)"
  by (simp add: filter_pairs_with_signals_ccxt_def collect_ccxt_encountered Let_def)

lemma signal_steps_binance_eq: "signal_steps_binance st = filter_pairs_with_signals_ccxt st"
  by (simp add: signal_steps_binance_def filter_pairs_with_signals_ccxt_def collect_binance_eq)

lemma fetch_symbols_failed:
  assumes "fetch b = Inl e"
  shows "map_of (data (fetch_symbols fetch ks st)) b = map_of (data st) b"
  using assms
proof (induction ks arbitrary: st)
  case Nil
  then show ?case by simp
next
  case (Cons k ks)
  show ?case
    using Cons.prems
    by (cases "k = b") (simp_all add: Cons.IH update_conv' split: sum.splits)
qed

lemma fetch_symbols_kept:
  assumes "fetch a = Inr cs" and "cs \<noteq> []"
    and "map_of (data st) a = Some (build_frame cs)"
  shows "map_of (data (fetch_symbols fetch ks st)) a = Some (build_frame cs)"
  using assms
proof (induction ks arbitrary: st)
  case Nil
  then show ?case by simp
next
  case (Cons k ks)
  show ?case
    unfolding fetch_symbols.simps
    by (rule Cons.IH) (use Cons.prems in \<open>auto simp: update_conv' split: sum.splits\<close>)
qed

lemma fetch_symbols_fetched:
  assumes "a \<in> set ks" and "fetch a = Inr cs" and "cs \<noteq> []"
  shows "map_of (data (fetch_symbols fetch ks st)) a = Some (build_frame cs)"
  using assms
proof (induction ks arbitrary: st)
  case Nil
  then show ?case by simp
next
  case (Cons k ks)
  show ?case
  proof (cases "k = a")
    case True
    show ?thesis
      unfolding fetch_symbols.simps
      by (rule fetch_symbols_kept[where fetch = fetch and a = a and cs = cs])
         (use True Cons.prems in \<open>simp_all add: update_conv'\<close>)
  next
    case False
    with Cons.prems have "a \<in> set ks" by simp
    then show ?thesis
      unfolding fetch_symbols.simps using Cons.prems(2,3) by (rule Cons.IH)
  qed
qed

lemma fetch_symbols_console_mono:
  "x \<in> set (console st) \<Longrightarrow> x \<in> set (console (fetch_symbols fetch ks st))"
proof (induction ks arbitrary: st)
  case Nil
  then show ?case by simp
next
  case (Cons k ks)
  show ?case
    unfolding fetch_symbols.simps
    by (rule Cons.IH) (use Cons.prems in \<open>simp split: sum.splits\<close>)
qed

lemma fetch_symbols_logs_failure:
  assumes "b \<in> set ks" and "fetch b = Inl e"
  shows "ErrorFetching b e \<in> set (console (fetch_symbols fetch ks st))"
  using assms
proof (induction ks arbitrary: st)
  case Nil
  then show ?case by simp
next
  case (Cons k ks)
  show ?case
  proof (cases "k = b")
    case True
    show ?thesis
      unfolding fetch_symbols.simps
      by (rule fetch_symbols_console_mono) (use True Cons.prems in simp)
  next
    case False
    with Cons.prems have "b \<in> set ks" by simp
    then show ?thesis
      unfolding fetch_symbols.simps using Cons.prems(2) by (rule Cons.IH)
  qed
qed

lemma fetch_symbols_untouched:
  assumes "a \<notin> set ks"
  shows "map_of (data (fetch_symbols fetch ks st)) a = map_of (data st) a"
  using assms
proof (induction ks arbitrary: st)
  case Nil
  then show ?case by simp
next
  case (Cons k ks)
  then show ?case by (simp add: update_conv' split: sum.splits)
qed

lemma processed_append: "processed (xs @ ys) = processed xs @ processed ys"
  by (simp add: processed_def)

lemma processed_fetch_symbols:
  "processed (console (fetch_symbols fetch ks st)) = processed (console st) @ ks"
proof (induction ks arbitrary: st)
  case Nil
  then show ?case by simp
next
  case (Cons k ks)
  show ?case
    by (simp add: Cons processed_append split: sum.splits) (simp add: processed_def)
qed

lemma fetch_all_pairs_binance_frame:
  "data (snd (fetch_all_pairs_binance api st)) = data st \<and>
   processed (console (snd (fetch_all_pairs_binance api st))) = processed (console st)"
  by (simp add: fetch_all_pairs_binance_def Let_def processed_def split: sum.splits)

lemma fetch_all_pairs_ccxt_frame:
  "data (snd (fetch_all_pairs_ccxt ex st)) = data st \<and>
   processed (console (snd (fetch_all_pairs_ccxt ex st))) = processed (console st)"
  by (simp add: fetch_all_pairs_ccxt_def Let_def processed_def split: sum.splits)

lemma fetch_data_binance_state:
  "snd (fetch_data_binance cap api st) =
     fetch_symbols (klines api) (limit_symbols cap (fst (fetch_all_pairs_binance api st)))
       ((snd (fetch_all_pairs_binance api st))
          \<lparr>console := console (snd (fetch_all_pairs_binance api st)) @
             [FetchingData (length (limit_symbols cap (fst (fetch_all_pairs_binance api st))))]\<rparr>)"
  by (simp add: fetch_data_binance_def Let_def split: prod.splits)

lemma fetch_data_ccxt_state:
  "snd (fetch_data_ccxt cap ex st) =
     fetch_symbols (fetch_ohlcv ex) (limit_symbols cap (fst (fetch_all_pairs_ccxt ex st)))
       ((snd (fetch_all_pairs_ccxt ex st))
          \<lparr>console := console (snd (fetch_all_pairs_ccxt ex st)) @
             [FetchingData (length (limit_symbols cap (fst (fetch_all_pairs_ccxt ex st))))]\<rparr>)"
  by (simp add: fetch_data_ccxt_def Let_def split: prod.splits)

lemma binance_scan_unfold:
  "filter_pairs_with_signals_binance api st =
     filter_pairs_with_signals_ccxt (snd (fetch_data_binance None api st))"
  by (simp add: filter_pairs_with_signals_binance_def signal_steps_binance_eq)

section \<open>The ranked output\<close>




section \<open>The cap on the symbols\<close>

text \<open>
  C10. With a cap of 0 \<open>fetch_data\<close> runs its loop over every listed symbol, in the
  listed order, exactly as it does without a cap, and every listed symbol whose
  fetch answers with candles gets its frame. With a positive cap it runs the loop
  over the first \<open>limit_pairs\<close> listed symbols only, and leaves the entry of any
  other symbol in \<open>self.data\<close> as it was. Both variants.
\<close>

theorem cap_zero_processes_every_symbol:
  "processed (console (snd (fetch_data_binance (Some 0) api st))) =
     processed (console st) @ fst (fetch_all_pairs_binance api st) \<and>
   processed (console (snd (fetch_data_ccxt (Some 0) ex st))) =
     processed (console st) @ fst (fetch_all_pairs_ccxt ex st) \<and>
   fetch_data_binance (Some 0) api st = fetch_data_binance None api st \<and>
   fetch_data_ccxt (Some 0) ex st = fetch_data_ccxt None ex st \<and>
   (\<forall>a cs. a \<in> set (fst (fetch_all_pairs_binance api st)) \<and> klines api a = Inr cs \<and> cs \<noteq> [] \<longrightarrow>
      map_of (data (snd (fetch_data_binance (Some 0) api st))) a = Some (build_frame cs)) \<and>
   (\<forall>a cs. a \<in> set (fst (fetch_all_pairs_ccxt ex st)) \<and> fetch_ohlcv ex a = Inr cs \<and> cs \<noteq> [] \<longrightarrow>
      map_of (data (snd (fetch_data_ccxt (Some 0) ex st))) a = Some (build_frame cs)) \<and>
   (0 < n \<longrightarrow>
      processed (console (snd (fetch_data_binance (Some n) api st))) =
        processed (console st) @ take (nat n) (fst (fetch_all_pairs_binance api st)) \<and>
      processed (console (snd (fetch_data_ccxt (Some n) ex st))) =
        processed (console st) @ take (nat n) (fst (fetch_all_pairs_ccxt ex st)) \<and>
      (\<forall>a. a \<notin> set (take (nat n) (fst (fetch_all_pairs_binance api st))) \<longrightarrow>
         map_of (data (snd (fetch_data_binance (Some n) api st))) a = map_of (data st) a) \<and>
      (\<forall>a. a \<notin> set (take (nat n) (fst (fetch_all_pairs_ccxt ex st))) \<longrightarrow>
         map_of (data (snd (fetch_data_ccxt (Some n) ex st))) a = map_of (data st) a))"
proof -
  have zero: "limit_symbols (Some 0) xs = xs" for xs
    by (simp add: limit_symbols_def)
  have pos: "0 < n \<Longrightarrow> limit_symbols (Some n) xs = take (nat n) xs" for xs
    by (simp add: limit_symbols_def slice_to_def)
  have p1: "processed (console (snd (fetch_data_binance cap api st))) =
      processed (console st) @ limit_symbols cap (fst (fetch_all_pairs_binance api st))" for cap
    by (simp add: fetch_data_binance_state processed_fetch_symbols processed_append
          fetch_all_pairs_binance_frame) (simp add: processed_def)
  have p2: "processed (console (snd (fetch_data_ccxt cap ex st))) =
      processed (console st) @ limit_symbols cap (fst (fetch_all_pairs_ccxt ex st))" for cap
    by (simp add: fetch_data_ccxt_state processed_fetch_symbols processed_append
          fetch_all_pairs_ccxt_frame) (simp add: processed_def)
  have d1: "a \<notin> set (limit_symbols cap (fst (fetch_all_pairs_binance api st))) \<Longrightarrow>
      map_of (data (snd (fetch_data_binance cap api st))) a = map_of (data st) a" for cap a
    by (simp add: fetch_data_binance_state fetch_symbols_untouched fetch_all_pairs_binance_frame)
  have d2: "a \<notin> set (limit_symbols cap (fst (fetch_all_pairs_ccxt ex st))) \<Longrightarrow>
      map_of (data (snd (fetch_data_ccxt cap ex st))) a = map_of (data st) a" for cap a
    by (simp add: fetch_data_ccxt_state fetch_symbols_untouched fetch_all_pairs_ccxt_frame)
  have g1: "a \<in> set (fst (fetch_all_pairs_binance api st)) \<and> klines api a = Inr cs \<and> cs \<noteq> [] \<Longrightarrow>
      map_of (data (snd (fetch_data_binance (Some 0) api st))) a = Some (build_frame cs)" for a cs
    by (simp add: fetch_data_binance_state zero
          fetch_symbols_fetched[where fetch = "klines api" and a = a and cs = cs])
  have g2: "a \<in> set (fst (fetch_all_pairs_ccxt ex st)) \<and> fetch_ohlcv ex a = Inr cs \<and> cs \<noteq> [] \<Longrightarrow>
      map_of (data (snd (fetch_data_ccxt (Some 0) ex st))) a = Some (build_frame cs)" for a cs
    by (simp add: fetch_data_ccxt_state zero
          fetch_symbols_fetched[where fetch = "fetch_ohlcv ex" and a = a and cs = cs])
  have e1: "fetch_data_binance (Some 0) api st = fetch_data_binance None api st"
    by (simp add: fetch_data_binance_def limit_symbols_def)
  have e2: "fetch_data_ccxt (Some 0) ex st = fetch_data_ccxt None ex st"
    by (simp add: fetch_data_ccxt_def limit_symbols_def)
  show ?thesis
    using p1[of "Some 0"] p2[of "Some 0"] p1[of "Some n"] p2[of "Some n"]
      d1[of _ "Some n"] d2[of _ "Some n"] g1 g2 e1 e2
    by (simp add: zero pos)
qed

theorem cap_zero_processes_every_symbol_witness:
  "processed (console (snd (fetch_data_binance (Some 0) api_partial (new_strategy ''USDT'')))) =
     [''AAAUSDT'', ''BBBUSDT'', ''CCCUSDT''] \<and>
   map_of (data (snd (fetch_data_binance (Some 0) api_partial (new_strategy ''USDT'')))) ''CCCUSDT'' =
     Some (build_frame series_A) \<and>
   processed (console (snd (fetch_data_ccxt (Some 0) ex_partial (new_strategy ''USDT'')))) =
     [''AAA/USDT'', ''BBB/USDT''] \<and>
   (0 :: int) < 2 \<and>
   processed (console (snd (fetch_data_binance (Some 2) api_partial (new_strategy ''USDT'')))) =
     [''AAAUSDT'', ''BBBUSDT''] \<and>
   map_of (data (snd (fetch_data_binance (Some 2) api_partial (new_strategy ''USDT'')))) ''CCCUSDT'' =
     None \<and>
   processed (console (snd (fetch_data_ccxt (Some 2) ex_partial (new_strategy ''USDT'')))) =
     [''AAA/USDT'', ''BBB/USDT'']"
proof -
  have l1: "fst (fetch_all_pairs_binance api_partial (new_strategy ''USDT'')) =
      [''AAAUSDT'', ''BBBUSDT'', ''CCCUSDT'']" by code_simp
  have l2: "fst (fetch_all_pairs_ccxt ex_partial (new_strategy ''USDT'')) =
      [''AAA/USDT'', ''BBB/USDT'']" by code_simp
  have c1: "klines api_partial ''CCCUSDT'' = Inr series_A" by code_simp
  have ne: "series_A \<noteq> []" by code_simp
  have fresh: "console (new_strategy ''USDT'') = []" "data (new_strategy ''USDT'') = []"
    by (simp_all add: new_strategy_def)
  note inst = cap_zero_processes_every_symbol[of api_partial "new_strategy ''USDT''" ex_partial 2]
  have in3: "''CCCUSDT'' \<in> set (fst (fetch_all_pairs_binance api_partial (new_strategy ''USDT'')))"
    by (simp add: l1)
  from inst have
    A: "processed (console (snd (fetch_data_binance (Some 0) api_partial (new_strategy ''USDT'')))) =
          processed (console (new_strategy ''USDT'')) @
          fst (fetch_all_pairs_binance api_partial (new_strategy ''USDT''))"
    and B: "processed (console (snd (fetch_data_ccxt (Some 0) ex_partial (new_strategy ''USDT'')))) =
          processed (console (new_strategy ''USDT'')) @
          fst (fetch_all_pairs_ccxt ex_partial (new_strategy ''USDT''))"
    and E: "\<forall>a cs. a \<in> set (fst (fetch_all_pairs_binance api_partial (new_strategy ''USDT''))) \<and>
            klines api_partial a = Inr cs \<and> cs \<noteq> [] \<longrightarrow>
          map_of (data (snd (fetch_data_binance (Some 0) api_partial (new_strategy ''USDT'')))) a =
            Some (build_frame cs)"
    and G: "0 < (2 :: int) \<longrightarrow>
      processed (console (snd (fetch_data_binance (Some 2) api_partial (new_strategy ''USDT'')))) =
        processed (console (new_strategy ''USDT'')) @
        take (nat 2) (fst (fetch_all_pairs_binance api_partial (new_strategy ''USDT''))) \<and>
      processed (console (snd (fetch_data_ccxt (Some 2) ex_partial (new_strategy ''USDT'')))) =
        processed (console (new_strategy ''USDT'')) @
        take (nat 2) (fst (fetch_all_pairs_ccxt ex_partial (new_strategy ''USDT''))) \<and>
      (\<forall>a. a \<notin> set (take (nat 2) (fst (fetch_all_pairs_binance api_partial (new_strategy ''USDT'')))) \<longrightarrow>
         map_of (data (snd (fetch_data_binance (Some 2) api_partial (new_strategy ''USDT'')))) a =
           map_of (data (new_strategy ''USDT'')) a) \<and>
      (\<forall>a. a \<notin> set (take (nat 2) (fst (fetch_all_pairs_ccxt ex_partial (new_strategy ''USDT'')))) \<longrightarrow>
         map_of (data (snd (fetch_data_ccxt (Some 2) ex_partial (new_strategy ''USDT'')))) a =
           map_of (data (new_strategy ''USDT'')) a)"
    by blast+
  have two: "(0 :: int) < 2" by simp
  have pn: "processed (console (new_strategy ''USDT'')) = []"
    by (simp add: fresh processed_def)
  have r1: "processed (console (snd (fetch_data_binance (Some 0) api_partial (new_strategy ''USDT'')))) =
     [''AAAUSDT'', ''BBBUSDT'', ''CCCUSDT'']"
    by (simp only: A pn l1 append_Nil)
  have r2: "processed (console (snd (fetch_data_ccxt (Some 0) ex_partial (new_strategy ''USDT'')))) =
     [''AAA/USDT'', ''BBB/USDT'']"
    by (simp only: B pn l2 append_Nil)
  have r3: "map_of (data (snd (fetch_data_binance (Some 0) api_partial (new_strategy ''USDT'')))) ''CCCUSDT'' =
     Some (build_frame series_A)"
    using E in3 c1 ne by blast
  from G two have
    G1: "processed (console (snd (fetch_data_binance (Some 2) api_partial (new_strategy ''USDT'')))) =
        processed (console (new_strategy ''USDT'')) @
        take (nat 2) (fst (fetch_all_pairs_binance api_partial (new_strategy ''USDT'')))"
    and G2: "processed (console (snd (fetch_data_ccxt (Some 2) ex_partial (new_strategy ''USDT'')))) =
        processed (console (new_strategy ''USDT'')) @
        take (nat 2) (fst (fetch_all_pairs_ccxt ex_partial (new_strategy ''USDT'')))"
    and G3: "\<forall>a. a \<notin> set (take (nat 2) (fst (fetch_all_pairs_binance api_partial (new_strategy ''USDT'')))) \<longrightarrow>
         map_of (data (snd (fetch_data_binance (Some 2) api_partial (new_strategy ''USDT'')))) a =
           map_of (data (new_strategy ''USDT'')) a"
    by blast+
  have r4: "processed (console (snd (fetch_data_binance (Some 2) api_partial (new_strategy ''USDT'')))) =
     [''AAAUSDT'', ''BBBUSDT'']"
    unfolding G1 pn l1 by simp
  have r5: "processed (console (snd (fetch_data_ccxt (Some 2) ex_partial (new_strategy ''USDT'')))) =
     [''AAA/USDT'', ''BBB/USDT'']"
    unfolding G2 pn l2 by simp
  have out3: "''CCCUSDT'' \<notin> set (take (nat 2) (fst (fetch_all_pairs_binance api_partial (new_strategy ''USDT''))))"
    unfolding l1 by simp
  have r6: "map_of (data (snd (fetch_data_binance (Some 2) api_partial (new_strategy ''USDT'')))) ''CCCUSDT'' = None"
    using G3 out3 by (simp add: fresh)
  show ?thesis
    by (intro conjI r1 r2 r3 r4 r5 r6 two)
qed

section \<open>A failed candle fetch\<close>

text \<open>
  The loop of \<open>fetch_data\<close> over symbols \<open>ks\<close> and then the filter: what a failed
  fetch of \<open>b\<close> leaves behind, whatever the object held before.
\<close>

lemma scan_isolates_failure:
  assumes "b \<in> set ks" and "fetch b = Inl e"
  shows "\<exists>ms st'. filter_pairs_with_signals_ccxt (fetch_symbols fetch ks st0) = Inr (ms, st') \<and>
           map_of (data st') b = map_of (data st0) b \<and>
           ErrorFetching b e \<in> set (console st') \<and>
           (map_of (data st0) b = None \<longrightarrow> b \<notin> symbol ` set ms) \<and>
           (\<forall>df m. map_of (data st0) b = Some df \<and> evaluate b df = Inr (Some m) \<longrightarrow> m \<in> set ms) \<and>
           (\<forall>a cs. a \<in> set ks \<and> fetch a = Inr cs \<and> cs \<noteq> [] \<longrightarrow>
              map_of (data st') a = Some (build_frame cs) \<and>
              (\<forall>m. evaluate a (build_frame cs) = Inr (Some m) \<longrightarrow> m \<in> set ms))"
proof -
  let ?st3 = "fetch_symbols fetch ks st0"
  let ?ms = "py_sorted volume True (encountered (data ?st3))"
  have ms: "set ?ms = {m. \<exists>k df. (k, df) \<in> set (data ?st3) \<and> evaluate k df = Inr (Some m)}"
    by (simp add: set_py_sorted set_encountered)
  have same: "map_of (data ?st3) b = map_of (data st0) b"
    using assms(2) by (simp add: fetch_symbols_failed[where fetch = fetch and b = b and e = e])
  have nob: "b \<notin> symbol ` set ?ms" if none: "map_of (data st0) b = None"
  proof
    assume "b \<in> symbol ` set ?ms"
    then obtain m where "m \<in> set ?ms" and "symbol m = b" by auto
    with ms obtain k df where kd: "(k, df) \<in> set (data ?st3)" "evaluate k df = Inr (Some m)"
      by auto
    with \<open>symbol m = b\<close> have "k = b" using evaluate_symbol by blast
    with kd(1) have "b \<in> fst ` set (data ?st3)" by force
    moreover from none same have "map_of (data ?st3) b = None" by simp
    ultimately show False by (simp add: map_of_eq_None_iff)
  qed
  have stale: "m \<in> set ?ms" if "map_of (data st0) b = Some df \<and> evaluate b df = Inr (Some m)" for df m
  proof -
    from that same have "map_of (data ?st3) b = Some df" by simp
    then have "(b, df) \<in> set (data ?st3)" by (rule map_of_SomeD)
    with that ms show ?thesis by auto
  qed
  have others: "map_of (data ?st3) a = Some (build_frame cs) \<and>
        (\<forall>m. evaluate a (build_frame cs) = Inr (Some m) \<longrightarrow> m \<in> set ?ms)"
    if "a \<in> set ks \<and> fetch a = Inr cs \<and> cs \<noteq> []" for a cs
  proof -
    have got: "map_of (data ?st3) a = Some (build_frame cs)"
      using that by (simp add: fetch_symbols_fetched)
    then have "(a, build_frame cs) \<in> set (data ?st3)" by (rule map_of_SomeD)
    with ms got show ?thesis by auto
  qed
  show ?thesis
  proof (intro exI[of _ ?ms] exI[of _ "?st3\<lparr>matching_pairs := ?ms\<rparr>"] conjI)
    show "filter_pairs_with_signals_ccxt ?st3 = Inr (?ms, ?st3\<lparr>matching_pairs := ?ms\<rparr>)"
      by (rule filter_ccxt_result)
    show "map_of (data (?st3\<lparr>matching_pairs := ?ms\<rparr>)) b = map_of (data st0) b"
      using same by simp
    show "ErrorFetching b e \<in> set (console (?st3\<lparr>matching_pairs := ?ms\<rparr>))"
      using fetch_symbols_logs_failure[where fetch = fetch and b = b and e = e and ks = ks] assms
      by simp
    show "map_of (data st0) b = None \<longrightarrow> b \<notin> symbol ` set ?ms"
      using nob by blast
    show "\<forall>df m. map_of (data st0) b = Some df \<and> evaluate b df = Inr (Some m) \<longrightarrow> m \<in> set ?ms"
      using stale by blast
    show "\<forall>a cs. a \<in> set ks \<and> fetch a = Inr cs \<and> cs \<noteq> [] \<longrightarrow>
              map_of (data (?st3\<lparr>matching_pairs := ?ms\<rparr>)) a = Some (build_frame cs) \<and>
              (\<forall>m. evaluate a (build_frame cs) = Inr (Some m) \<longrightarrow> m \<in> set ?ms)"
      using others by simp
  qed
qed

text \<open>
  C7, as the code has it. A candle fetch that raises for one symbol is caught and
  printed, the scan goes on and returns normally, and every other listed symbol
  whose fetch answers with candles gets its frame and, when it matches, its entry in
  the result. The failed symbol's entry in \<open>self.data\<close> is left as it was: when the
  object held no frame for it (a new object), the symbol is not in the result; when
  an earlier fetch on the same object had stored a frame, that frame stays and its
  match is returned. Both variants.
\<close>

theorem candle_fetch_failure_keeps_old_entry:
  "(b \<in> set (fst (fetch_all_pairs_binance api st)) \<and> klines api b = Inl e \<longrightarrow>
      (\<exists>ms st'. filter_pairs_with_signals_binance api st = Inr (ms, st') \<and>
         map_of (data st') b = map_of (data st) b \<and>
         ErrorFetching b e \<in> set (console st') \<and>
         (map_of (data st) b = None \<longrightarrow> b \<notin> symbol ` set ms) \<and>
         (\<forall>df m. map_of (data st) b = Some df \<and> evaluate b df = Inr (Some m) \<longrightarrow> m \<in> set ms) \<and>
         (\<forall>a cs. a \<in> set (fst (fetch_all_pairs_binance api st)) \<and>
                 klines api a = Inr cs \<and> cs \<noteq> [] \<longrightarrow>
            map_of (data st') a = Some (build_frame cs) \<and>
            (\<forall>m. evaluate a (build_frame cs) = Inr (Some m) \<longrightarrow> m \<in> set ms)))) \<and>
   (b \<in> set (fst (fetch_all_pairs_ccxt ex st)) \<and> fetch_ohlcv ex b = Inl e \<longrightarrow>
      (\<exists>ms st'. scan_ccxt ex st = Inr (ms, st') \<and>
         map_of (data st') b = map_of (data st) b \<and>
         ErrorFetching b e \<in> set (console st') \<and>
         (map_of (data st) b = None \<longrightarrow> b \<notin> symbol ` set ms) \<and>
         (\<forall>df m. map_of (data st) b = Some df \<and> evaluate b df = Inr (Some m) \<longrightarrow> m \<in> set ms) \<and>
         (\<forall>a cs. a \<in> set (fst (fetch_all_pairs_ccxt ex st)) \<and>
                 fetch_ohlcv ex a = Inr cs \<and> cs \<noteq> [] \<longrightarrow>
            map_of (data st') a = Some (build_frame cs) \<and>
            (\<forall>m. evaluate a (build_frame cs) = Inr (Some m) \<longrightarrow> m \<in> set ms))))"
proof (intro conjI impI)
  assume h: "b \<in> set (fst (fetch_all_pairs_binance api st)) \<and> klines api b = Inl e"
  let ?st0 = "(snd (fetch_all_pairs_binance api st))
          \<lparr>console := console (snd (fetch_all_pairs_binance api st)) @
             [FetchingData (length (limit_symbols None (fst (fetch_all_pairs_binance api st))))]\<rparr>"
  have d0: "data ?st0 = data st" by (simp add: fetch_all_pairs_binance_frame)
  have un: "filter_pairs_with_signals_binance api st =
      filter_pairs_with_signals_ccxt
        (fetch_symbols (klines api) (fst (fetch_all_pairs_binance api st)) ?st0)"
    by (simp add: binance_scan_unfold fetch_data_binance_state limit_symbols_def)
  from h have b: "b \<in> set (fst (fetch_all_pairs_binance api st))" and f: "klines api b = Inl e"
    by simp_all
  show "\<exists>ms st'. filter_pairs_with_signals_binance api st = Inr (ms, st') \<and>
         map_of (data st') b = map_of (data st) b \<and>
         ErrorFetching b e \<in> set (console st') \<and>
         (map_of (data st) b = None \<longrightarrow> b \<notin> symbol ` set ms) \<and>
         (\<forall>df m. map_of (data st) b = Some df \<and> evaluate b df = Inr (Some m) \<longrightarrow> m \<in> set ms) \<and>
         (\<forall>a cs. a \<in> set (fst (fetch_all_pairs_binance api st)) \<and>
                 klines api a = Inr cs \<and> cs \<noteq> [] \<longrightarrow>
            map_of (data st') a = Some (build_frame cs) \<and>
            (\<forall>m. evaluate a (build_frame cs) = Inr (Some m) \<longrightarrow> m \<in> set ms))"
    using scan_isolates_failure[where fetch = "klines api" and b = b and e = e
        and ks = "fst (fetch_all_pairs_binance api st)" and ?st0.0 = ?st0, OF b f]
    unfolding un d0 .
next
  assume h: "b \<in> set (fst (fetch_all_pairs_ccxt ex st)) \<and> fetch_ohlcv ex b = Inl e"
  let ?st0 = "(snd (fetch_all_pairs_ccxt ex st))
          \<lparr>console := console (snd (fetch_all_pairs_ccxt ex st)) @
             [FetchingData (length (limit_symbols None (fst (fetch_all_pairs_ccxt ex st))))]\<rparr>"
  have d0: "data ?st0 = data st" by (simp add: fetch_all_pairs_ccxt_frame)
  have un: "scan_ccxt ex st =
      filter_pairs_with_signals_ccxt
        (fetch_symbols (fetch_ohlcv ex) (fst (fetch_all_pairs_ccxt ex st)) ?st0)"
    by (simp add: scan_ccxt_def fetch_data_ccxt_state limit_symbols_def)
  from h have b: "b \<in> set (fst (fetch_all_pairs_ccxt ex st))" and f: "fetch_ohlcv ex b = Inl e"
    by simp_all
  show "\<exists>ms st'. scan_ccxt ex st = Inr (ms, st') \<and>
         map_of (data st') b = map_of (data st) b \<and>
         ErrorFetching b e \<in> set (console st') \<and>
         (map_of (data st) b = None \<longrightarrow> b \<notin> symbol ` set ms) \<and>
         (\<forall>df m. map_of (data st) b = Some df \<and> evaluate b df = Inr (Some m) \<longrightarrow> m \<in> set ms) \<and>
         (\<forall>a cs. a \<in> set (fst (fetch_all_pairs_ccxt ex st)) \<and>
                 fetch_ohlcv ex a = Inr cs \<and> cs \<noteq> [] \<longrightarrow>
            map_of (data st') a = Some (build_frame cs) \<and>
            (\<forall>m. evaluate a (build_frame cs) = Inr (Some m) \<longrightarrow> m \<in> set ms))"
    using scan_isolates_failure[where fetch = "fetch_ohlcv ex" and b = b and e = e
        and ks = "fst (fetch_all_pairs_ccxt ex st)" and ?st0.0 = ?st0, OF b f]
    unfolding un d0 .
qed

theorem candle_fetch_failure_keeps_old_entry_witness:
  "''BBBUSDT'' \<in> set (fst (fetch_all_pairs_binance api_partial (new_strategy ''USDT''))) \<and>
   klines api_partial ''BBBUSDT'' = Inl (ExchangeError ''timeout'') \<and>
   map_of (data (new_strategy ''USDT'')) ''BBBUSDT'' = None \<and>
   (\<exists>ms st'. filter_pairs_with_signals_binance api_partial (new_strategy ''USDT'') = Inr (ms, st') \<and>
      ''BBBUSDT'' \<notin> symbol ` set ms \<and>
      ErrorFetching ''BBBUSDT'' (ExchangeError ''timeout'') \<in> set (console st') \<and>
      sig ''AAAUSDT'' 500000 \<in> set ms \<and> sig ''CCCUSDT'' 500000 \<in> set ms) \<and>
   map_of (data (snd (fetch_data_binance None api_all_ok (new_strategy ''USDT'')))) ''BBBUSDT'' =
     Some (build_frame series_A) \<and>
   (\<exists>ms st'. scheduled_scan api_all_ok api_partial = Inr (ms, st') \<and>
      sig ''BBBUSDT'' 500000 \<in> set ms \<and>
      ErrorFetching ''BBBUSDT'' (ExchangeError ''timeout'') \<in> set (console st')) \<and>
   ''BBB/USDT'' \<in> set (fst (fetch_all_pairs_ccxt ex_partial (new_strategy ''USDT''))) \<and>
   fetch_ohlcv ex_partial ''BBB/USDT'' = Inl (ExchangeError ''timeout'') \<and>
   (\<exists>ms st'. scan_ccxt ex_partial (new_strategy ''USDT'') = Inr (ms, st') \<and>
      ''BBB/USDT'' \<notin> symbol ` set ms \<and>
      ErrorFetching ''BBB/USDT'' (ExchangeError ''timeout'') \<in> set (console st') \<and>
      sig ''AAA/USDT'' 500000 \<in> set ms)"
proof -
  let ?new = "new_strategy ''USDT''"
  let ?held = "snd (fetch_data_binance None api_all_ok ?new)"
  let ?e = "ExchangeError ''timeout''"
  have l1: "fst (fetch_all_pairs_binance api_partial ?new) = [''AAAUSDT'', ''BBBUSDT'', ''CCCUSDT'']"
    by code_simp
  have l1h: "fst (fetch_all_pairs_binance api_partial ?held) = [''AAAUSDT'', ''BBBUSDT'', ''CCCUSDT'']"
    by code_simp
  have f1: "klines api_partial ''BBBUSDT'' = Inl ?e" by code_simp
  have a1: "klines api_partial ''AAAUSDT'' = Inr series_A" by code_simp
  have c1: "klines api_partial ''CCCUSDT'' = Inr series_A" by code_simp
  have l2: "fst (fetch_all_pairs_ccxt ex_partial ?new) = [''AAA/USDT'', ''BBB/USDT'']"
    by code_simp
  have f2: "fetch_ohlcv ex_partial ''BBB/USDT'' = Inl ?e" by code_simp
  have a2: "fetch_ohlcv ex_partial ''AAA/USDT'' = Inr series_A" by code_simp
  have ne: "series_A \<noteq> []" by code_simp
  have evA: "evaluate ''AAAUSDT'' (build_frame series_A) = Inr (Some (sig ''AAAUSDT'' 500000))"
    by code_simp
  have evB: "evaluate ''BBBUSDT'' (build_frame series_A) = Inr (Some (sig ''BBBUSDT'' 500000))"
    by code_simp
  have evC: "evaluate ''CCCUSDT'' (build_frame series_A) = Inr (Some (sig ''CCCUSDT'' 500000))"
    by code_simp
  have evA2: "evaluate ''AAA/USDT'' (build_frame series_A) = Inr (Some (sig ''AAA/USDT'' 500000))"
    by code_simp
  have none: "map_of (data ?new) ''BBBUSDT'' = None" "map_of (data ?new) ''BBB/USDT'' = None"
    by (simp_all add: new_strategy_def)
  have held: "map_of (data ?held) ''BBBUSDT'' = Some (build_frame series_A)"
    by code_simp
  have sched: "scheduled_scan api_all_ok api_partial =
      filter_pairs_with_signals_binance api_partial ?held"
    by (simp add: scheduled_scan_def split: prod.splits)
  have b1: "''BBBUSDT'' \<in> set (fst (fetch_all_pairs_binance api_partial ?new))"
    by (simp add: l1)
  have b1h: "''BBBUSDT'' \<in> set (fst (fetch_all_pairs_binance api_partial ?held))"
    by (simp add: l1h)
  have b2: "''BBB/USDT'' \<in> set (fst (fetch_all_pairs_ccxt ex_partial ?new))"
    by (simp add: l2)
  note i1 = candle_fetch_failure_keeps_old_entry[of "''BBBUSDT''" api_partial ?new ?e ex_partial]
  from mp[OF conjunct1[OF i1] conjI[OF b1 f1]]
  obtain ms st' where r1:
    "filter_pairs_with_signals_binance api_partial ?new = Inr (ms, st')"
    "ErrorFetching ''BBBUSDT'' ?e \<in> set (console st')"
    "map_of (data ?new) ''BBBUSDT'' = None \<longrightarrow> ''BBBUSDT'' \<notin> symbol ` set ms"
    "\<forall>a cs. a \<in> set (fst (fetch_all_pairs_binance api_partial ?new)) \<and>
         klines api_partial a = Inr cs \<and> cs \<noteq> [] \<longrightarrow>
         map_of (data st') a = Some (build_frame cs) \<and>
         (\<forall>m. evaluate a (build_frame cs) = Inr (Some m) \<longrightarrow> m \<in> set ms)"
    by (elim exE conjE) (rule that; assumption)
  have inA: "sig ''AAAUSDT'' 500000 \<in> set ms"
  proof -
    have "''AAAUSDT'' \<in> set (fst (fetch_all_pairs_binance api_partial ?new))" by (simp add: l1)
    with r1(4) a1 ne evA show ?thesis by blast
  qed
  have inC: "sig ''CCCUSDT'' 500000 \<in> set ms"
  proof -
    have "''CCCUSDT'' \<in> set (fst (fetch_all_pairs_binance api_partial ?new))" by (simp add: l1)
    with r1(4) c1 ne evC show ?thesis by blast
  qed
  have first: "\<exists>ms st'. filter_pairs_with_signals_binance api_partial ?new = Inr (ms, st') \<and>
      ''BBBUSDT'' \<notin> symbol ` set ms \<and> ErrorFetching ''BBBUSDT'' ?e \<in> set (console st') \<and>
      sig ''AAAUSDT'' 500000 \<in> set ms \<and> sig ''CCCUSDT'' 500000 \<in> set ms"
    using r1(1-3) none(1) inA inC by blast
  note i3 = candle_fetch_failure_keeps_old_entry[of "''BBBUSDT''" api_partial ?held ?e ex_partial]
  from mp[OF conjunct1[OF i3] conjI[OF b1h f1]]
  obtain ms3 st3 where r3:
    "filter_pairs_with_signals_binance api_partial ?held = Inr (ms3, st3)"
    "ErrorFetching ''BBBUSDT'' ?e \<in> set (console st3)"
    "\<forall>df m. map_of (data ?held) ''BBBUSDT'' = Some df \<and> evaluate ''BBBUSDT'' df = Inr (Some m) \<longrightarrow>
        m \<in> set ms3"
    by (elim exE conjE) (rule that; assumption)
  from r3(3) held evB have inB: "sig ''BBBUSDT'' 500000 \<in> set ms3" by blast
  have stale: "\<exists>ms st'. scheduled_scan api_all_ok api_partial = Inr (ms, st') \<and>
      sig ''BBBUSDT'' 500000 \<in> set ms \<and> ErrorFetching ''BBBUSDT'' ?e \<in> set (console st')"
    unfolding sched using r3(1,2) inB by blast
  note i2 = candle_fetch_failure_keeps_old_entry[of "''BBB/USDT''" api_partial ?new ?e ex_partial]
  from mp[OF conjunct2[OF i2] conjI[OF b2 f2]]
  obtain ms2 st2 where r2:
    "scan_ccxt ex_partial ?new = Inr (ms2, st2)"
    "ErrorFetching ''BBB/USDT'' ?e \<in> set (console st2)"
    "map_of (data ?new) ''BBB/USDT'' = None \<longrightarrow> ''BBB/USDT'' \<notin> symbol ` set ms2"
    "\<forall>a cs. a \<in> set (fst (fetch_all_pairs_ccxt ex_partial ?new)) \<and>
         fetch_ohlcv ex_partial a = Inr cs \<and> cs \<noteq> [] \<longrightarrow>
         map_of (data st2) a = Some (build_frame cs) \<and>
         (\<forall>m. evaluate a (build_frame cs) = Inr (Some m) \<longrightarrow> m \<in> set ms2)"
    by (elim exE conjE) (rule that; assumption)
  have inA2: "sig ''AAA/USDT'' 500000 \<in> set ms2"
  proof -
    have "''AAA/USDT'' \<in> set (fst (fetch_all_pairs_ccxt ex_partial ?new))" by (simp add: l2)
    with r2(4) a2 ne evA2 show ?thesis by blast
  qed
  have second: "\<exists>ms st'. scan_ccxt ex_partial ?new = Inr (ms, st') \<and>
      ''BBB/USDT'' \<notin> symbol ` set ms \<and> ErrorFetching ''BBB/USDT'' ?e \<in> set (console st') \<and>
      sig ''AAA/USDT'' 500000 \<in> set ms"
    using r2(1-3) none(2) inA2 by blast
  show ?thesis
    by (intro conjI b1 f1 none(1) first held stale b2 f2 second)
qed

text \<open>
  The claim as the spec states it fails on the bot's scan: every fetch of the first
  pass succeeds, the fetch of BBBUSDT times out in the second, and BBBUSDT is in the
  result all the same, with its frame of the first pass.
\<close>

theorem stale_frame_counterexample:
  "klines api_partial ''BBBUSDT'' = Inl (ExchangeError ''timeout'') \<and>
   returned (scheduled_scan api_all_ok api_partial) =
     Inr [sig ''AAAUSDT'' 500000, sig ''BBBUSDT'' 500000, sig ''CCCUSDT'' 500000]"
  by code_simp

section \<open>A failed listing\<close>

text \<open>
  C4, as the code has it. When the listing raises, \<open>fetch_all_pairs\<close> catches the
  exception, prints it and returns the empty list. \<open>fetch_data\<close> then fetches nothing
  and leaves \<open>self.data\<close> as it was, and the scan returns normally the ranked matches
  of the frames the object already holds: the empty list on a new object, and in
  every case the value the scan returns when the listing succeeds without any
  symbol. There is no failed outcome; only the printed output differs. Both variants.
\<close>

theorem listing_failure_scans_held_data:
  "(exchangeInfo api = Inl e \<longrightarrow>
      fst (fetch_all_pairs_binance api st) = [] \<and>
      console (snd (fetch_all_pairs_binance api st)) = console st @ [ErrorFetchingPairs e] \<and>
      data (snd (fetch_data_binance None api st)) = data st \<and>
      returned (filter_pairs_with_signals_binance api st) =
        Inr (py_sorted volume True (encountered (data st))) \<and>
      returned (filter_pairs_with_signals_binance api st) =
        returned (filter_pairs_with_signals_binance (api\<lparr>exchangeInfo := Inr []\<rparr>) st) \<and>
      returned (filter_pairs_with_signals_binance api (new_strategy q)) = Inr []) \<and>
   (load_markets ex = Inl e \<longrightarrow>
      fst (fetch_all_pairs_ccxt ex st) = [] \<and>
      console (snd (fetch_all_pairs_ccxt ex st)) = console st @ [ErrorFetchingPairs e] \<and>
      data (snd (fetch_data_ccxt None ex st)) = data st \<and>
      returned (scan_ccxt ex st) = Inr (py_sorted volume True (encountered (data st))) \<and>
      returned (scan_ccxt ex st) = returned (scan_ccxt (ex\<lparr>load_markets := Inr []\<rparr>) st) \<and>
      returned (scan_ccxt ex (new_strategy q)) = Inr [])"
proof -
  have empty: "py_sorted volume True ([] :: signal list) = []"
    by (simp add: py_sorted_def stable_sort_def)
  show ?thesis
    by (simp add: binance_scan_unfold scan_ccxt_def filter_ccxt_result returned_def
          fetch_data_binance_state fetch_data_ccxt_state limit_symbols_def
          fetch_all_pairs_binance_def fetch_all_pairs_ccxt_def new_strategy_def empty)
qed

theorem listing_failure_scans_held_data_witness:
  "exchangeInfo api_down = Inl (ExchangeError ''503 Service Unavailable'') \<and>
   console (snd (fetch_all_pairs_binance api_down (new_strategy ''USDT''))) =
     [ErrorFetchingPairs (ExchangeError ''503 Service Unavailable'')] \<and>
   returned (filter_pairs_with_signals_binance api_down (new_strategy ''USDT'')) = Inr [] \<and>
   returned (scheduled_scan api_partial api_down) =
     Inr [sig ''AAAUSDT'' 500000, sig ''CCCUSDT'' 500000] \<and>
   load_markets ex_down = Inl (ExchangeError ''network unreachable'') \<and>
   returned (scan_ccxt ex_down (new_strategy ''USDT'')) = Inr []"
proof -
  let ?new = "new_strategy ''USDT''"
  let ?held = "snd (fetch_data_binance None api_partial ?new)"
  have h1: "exchangeInfo api_down = Inl (ExchangeError ''503 Service Unavailable'')"
    by (simp add: api_down_def)
  have h2: "load_markets ex_down = Inl (ExchangeError ''network unreachable'')"
    by (simp add: ex_down_def)
  have c0: "console ?new = []" by (simp add: new_strategy_def)
  have sched: "scheduled_scan api_partial api_down = filter_pairs_with_signals_binance api_down ?held"
    by (simp add: scheduled_scan_def split: prod.splits)
  have ranked: "py_sorted volume True (encountered (data ?held)) =
      [sig ''AAAUSDT'' 500000, sig ''CCCUSDT'' 500000]"
    by code_simp
  note i1 = listing_failure_scans_held_data[of api_down "ExchangeError ''503 Service Unavailable''"
        ?new "''USDT''" ex_down]
  note i2 = listing_failure_scans_held_data[of api_down "ExchangeError ''503 Service Unavailable''"
        ?held "''USDT''" ex_down]
  note i3 = listing_failure_scans_held_data[of api_down "ExchangeError ''network unreachable''"
        ?new "''USDT''" ex_down]
  from i1 h1 have
    r1: "console (snd (fetch_all_pairs_binance api_down ?new)) =
           console ?new @ [ErrorFetchingPairs (ExchangeError ''503 Service Unavailable'')]"
    and r2: "returned (filter_pairs_with_signals_binance api_down ?new) = Inr []"
    by blast+
  from i2 h1 have
    r3: "returned (filter_pairs_with_signals_binance api_down ?held) =
        Inr (py_sorted volume True (encountered (data ?held)))"
    by blast
  from i3 h2 have r4: "returned (scan_ccxt ex_down ?new) = Inr []"
    by blast
  show ?thesis
    using h1 h2 r1 r2 r3 r4 by (simp add: c0 sched ranked)
qed

text \<open>
  The claim as the spec states it fails: a scan whose listing fails and a scan whose
  listing succeeds without any match return the same value.
\<close>

theorem failed_listing_counterexample:
  "exchangeInfo api_down = Inl (ExchangeError ''503 Service Unavailable'') \<and>
   exchangeInfo api_quiet =
     Inr [\<lparr>info_symbol = ''BTCUSDT'', quoteAsset = ''USDT'', status = ''TRADING''\<rparr>] \<and>
   returned (filter_pairs_with_signals_binance api_down (new_strategy ''USDT'')) = Inr [] \<and>
   returned (filter_pairs_with_signals_binance api_quiet (new_strategy ''USDT'')) = Inr []"
  by code_simp

end
